theory Spec2Isabelle
  imports
    Main
    "HOL-Library.Word"
    "HOL-Library.Sublist"
    "HOL-Library.Char_ord"
    "HOL-Library.List_Lexorder"
begin

section \<open>The LaTeX tool server: paths, the workspace guard, the executor, the tools\<close>

text \<open>
  The server (\<^verbatim>\<open>server.py\<close>) offers three tools over a workspace directory. A Python
  \<^verbatim>\<open>str\<close> is modelled by the \<^typ>\<open>string\<close> of its UTF-8 encoding, \<^verbatim>\<open>bytes\<close> by a
  list of 8-bit words. The functions of \<^verbatim>\<open>pathlib\<close> and \<^verbatim>\<open>posixpath\<close> that the server
  calls are written out for POSIX paths; what the operating system answers (links, which
  files exist, directory listings, what a child process prints) is a field of the record
  \<open>filesystem\<close> or the parameter \<open>sh\<close>, so every statement below holds for each such answer.
\<close>

subsection \<open>Strings\<close>

definition nl :: string where
  "nl = [CHR 0x0A]"

definition dquote :: string where
  "dquote = [CHR 0x22]"

definition squote :: string where
  "squote = [CHR 0x27]"

definition backslash :: string where
  "backslash = [CHR 0x5C]"

text \<open>\<^verbatim>\<open>s.split('/')\<close>: the pieces between the separators, never an empty list.\<close>

fun split_sep :: "string \<Rightarrow> string list" where
  "split_sep [] = [[]]"
| "split_sep (c # cs) =
     (if c = CHR ''/'' then [] # split_sep cs
      else (case split_sep cs of
              x # xs \<Rightarrow> (c # x) # xs
            | [] \<Rightarrow> [[c]]))"

text \<open>\<^verbatim>\<open>j.join(xs)\<close>.\<close>

fun join_with :: "string \<Rightarrow> string list \<Rightarrow> string" where
  "join_with j [] = []"
| "join_with j [x] = x"
| "join_with j (x # y # ys) = x @ j @ join_with j (y # ys)"

text \<open>\<^verbatim>\<open>str(n)\<close> for an integer.\<close>

fun str_nat :: "nat \<Rightarrow> string" where
  "str_nat n =
     (if n < 10 then [char_of (48 + n)]
      else str_nat (n div 10) @ [char_of (48 + n mod 10)])"

definition str_int :: "int \<Rightarrow> string" where
  "str_int i = (if i < 0 then ''-'' @ str_nat (nat (- i)) else str_nat (nat i))"

subsection \<open>Exceptions\<close>

text \<open>
  The error of a failed system call: its \<^verbatim>\<open>errno\<close>, its message and the file name it
  reports. \<^verbatim>\<open>PermissionError\<close>, \<^verbatim>\<open>FileNotFoundError\<close> and the like are \<^verbatim>\<open>OSError\<close>s
  told apart by their \<^verbatim>\<open>errno\<close>.
\<close>

datatype os_error = OsError (errno: nat) (strerror: string) (os_filename: string)

definition ENOENT :: nat where "ENOENT = 2"
definition EBADF :: nat where "EBADF = 9"
definition EACCES :: nat where "EACCES = 13"
definition ENOTDIR :: nat where "ENOTDIR = 20"
definition ENAMETOOLONG :: nat where "ENAMETOOLONG = 36"
definition ELOOP :: nat where "ELOOP = 40"

text \<open>
  The exceptions that reach the server's code. \<open>RuntimeError\<close> is the one that
  \<^verbatim>\<open>Path.resolve()\<close> raises on a loop of symbolic links; it carries the file name of the
  failed call, which the message \<^verbatim>\<open>Symlink loop from ...\<close> shows.
\<close>

datatype exn =
    ValueError string
  | UnicodeDecodeError
  | OSError os_error
  | RuntimeError string

subsection \<open>\<^verbatim>\<open>pathlib.PurePosixPath\<close>\<close>

text \<open>A path object: its root (\<open>''''\<close>, \<open>''/''\<close> or \<open>''//''\<close>) and the names after it.\<close>

datatype posix_path = PosixPath (root: string) (tail: "string list")

text \<open>
  \<^verbatim>\<open>splitroot\<close>: exactly two leading slashes are a root of their own, any other
  number of them is the root \<open>/\<close>.
\<close>

definition splitroot :: "string \<Rightarrow> string \<times> string" where
  "splitroot part =
     (if part \<noteq> [] \<and> hd part = CHR ''/'' then
        (let stripped = dropWhile (\<lambda>c. c = CHR ''/'') part
         in if length part - length stripped = 2 then (''//'', stripped)
            else (''/'', stripped))
      else ('''', part))"

text \<open>\<^verbatim>\<open>Path(s)\<close>: empty names and \<open>.\<close> are dropped, \<open>..\<close> is kept.\<close>

definition Path :: "string \<Rightarrow> posix_path" where
  "Path s =
     (case splitroot s of
        (r, rel) \<Rightarrow> PosixPath r (filter (\<lambda>x. x \<noteq> [] \<and> x \<noteq> ''.'') (split_sep rel)))"

text \<open>\<^verbatim>\<open>str(p)\<close>.\<close>

definition str_of :: "posix_path \<Rightarrow> string" where
  "str_of p =
     (if root p = [] \<and> tail p = [] then ''.''
      else root p @ join_with ''/'' (tail p))"

definition is_absolute :: "posix_path \<Rightarrow> bool" where
  "is_absolute p = (root p \<noteq> [])"

text \<open>\<^verbatim>\<open>p / q\<close>: an absolute right operand replaces the left one.\<close>

definition joinpath :: "posix_path \<Rightarrow> posix_path \<Rightarrow> posix_path" where
  "joinpath p q = (if is_absolute q then q else PosixPath (root p) (tail p @ tail q))"

text \<open>\<^verbatim>\<open>p.parent\<close>: a path with no names is its own parent.\<close>

definition parent :: "posix_path \<Rightarrow> posix_path" where
  "parent p = (if tail p = [] then p else PosixPath (root p) (butlast (tail p)))"

text \<open>\<^verbatim>\<open>p.parents\<close>: the parent, its parent, and so on up to the root.\<close>

definition parents :: "posix_path \<Rightarrow> posix_path list" where
  "parents p = map (\<lambda>k. PosixPath (root p) (take k (tail p))) (rev [0..<length (tail p)])"

text \<open>\<^verbatim>\<open>p.name\<close>.\<close>

definition name :: "posix_path \<Rightarrow> string" where
  "name p = (if tail p = [] then [] else last (tail p))"

text \<open>\<^verbatim>\<open>s.rfind('.')\<close>: the index of the last dot, or \<open>-1\<close>.\<close>

definition rfind_dot :: "string \<Rightarrow> int" where
  "rfind_dot s =
     (if CHR ''.'' \<in> set s
      then int (length s) - 1 - int (length (takeWhile (\<lambda>c. c \<noteq> CHR ''.'') (rev s)))
      else - 1)"

text \<open>\<^verbatim>\<open>p.stem\<close>: the name without its last suffix; a leading or trailing dot is no suffix.\<close>

definition stem :: "posix_path \<Rightarrow> string" where
  "stem p =
     (let nm = name p; i = rfind_dot nm
      in if 0 < i \<and> i < int (length nm) - 1 then take (nat i) nm else nm)"

text \<open>
  \<^verbatim>\<open>p.relative_to(other)\<close>: succeeds when \<open>other\<close> is \<open>p\<close> or one of its parents, and
  raises \<^verbatim>\<open>ValueError\<close> otherwise.
\<close>

definition is_relative_to :: "posix_path \<Rightarrow> posix_path \<Rightarrow> bool" where
  "is_relative_to p other = (other = p \<or> other \<in> set (parents p))"

definition relative_to :: "posix_path \<Rightarrow> posix_path \<Rightarrow> exn + posix_path" where
  "relative_to p other =
     (if is_relative_to p other then Inr (PosixPath [] (drop (length (tail other)) (tail p)))
      else Inl (ValueError (squote @ str_of p @ squote @ '' is not in the subpath of ''
                            @ squote @ str_of other @ squote)))"

subsection \<open>\<^verbatim>\<open>posixpath.normpath\<close> and \<^verbatim>\<open>posixpath.realpath\<close>\<close>

text \<open>
  The loop of \<^verbatim>\<open>normpath\<close> over the components: \<open>ini\<close> says that the path starts with a
  slash, \<open>new_comps\<close> is the list built so far.
\<close>

fun normpath_comps :: "bool \<Rightarrow> string list \<Rightarrow> string list \<Rightarrow> string list" where
  "normpath_comps ini new_comps [] = new_comps"
| "normpath_comps ini new_comps (c # comps) =
     (if c = [] \<or> c = ''.'' then normpath_comps ini new_comps comps
      else if c \<noteq> ''..'' \<or> (\<not> ini \<and> new_comps = [])
              \<or> (new_comps \<noteq> [] \<and> last new_comps = ''..'')
      then normpath_comps ini (new_comps @ [c]) comps
      else if new_comps \<noteq> [] then normpath_comps ini (butlast new_comps) comps
      else normpath_comps ini new_comps comps)"

definition initial_slashes :: "string \<Rightarrow> nat" where
  "initial_slashes path =
     (if \<not> prefix ''/'' path then 0
      else if prefix ''//'' path \<and> \<not> prefix ''///'' path then 2
      else 1)"

definition normpath :: "string \<Rightarrow> string" where
  "normpath path =
     (if path = [] then ''.''
      else
        (let k = initial_slashes path;
             comps = normpath_comps (k \<noteq> 0) [] (split_sep path);
             p = replicate k (CHR ''/'') @ join_with ''/'' comps
         in if p = [] then ''.'' else p))"

text \<open>
  What the operating system answers. \<open>readlinks\<close> stands for the link substitution of
  \<^verbatim>\<open>_joinrealpath\<close>: given the names of an absolute path that its loop visits, the names
  of the path it returns (the same names when no symbolic link is involved), or the
  error of an \<^verbatim>\<open>os.readlink\<close> that fails. \<open>os_stat\<close> answers \<^verbatim>\<open>os.stat\<close>: the error, or
  whether the file is a directory. \<open>listdir\<close> gives the names of \<^verbatim>\<open>iterdir()\<close> or the text
  of the exception it raises, \<open>file_text\<close> the result of
  \<^verbatim>\<open>read_text(encoding="utf-8", errors="ignore")\<close> or the error of its \<^verbatim>\<open>OSError\<close>.
\<close>

record filesystem =
  readlinks :: "string list \<Rightarrow> os_error + string list"
  getcwd :: string
  os_stat :: "string \<Rightarrow> os_error + bool"
  listdir :: "string \<Rightarrow> string + string list"
  file_text :: "string \<Rightarrow> os_error + string"

text \<open>The names that the loop of \<^verbatim>\<open>_joinrealpath\<close> visits: it skips empty names and \<open>.\<close>.\<close>

definition visited :: "string \<Rightarrow> string list" where
  "visited filename = filter (\<lambda>x. x \<noteq> [] \<and> x \<noteq> ''.'') (split_sep filename)"

text \<open>
  \<^verbatim>\<open>os.path.realpath(filename)\<close>, not strict: \<^verbatim>\<open>lstat\<close> raises \<^verbatim>\<open>ValueError\<close> on a
  name with a NUL character and its \<^verbatim>\<open>OSError\<close>s are swallowed; otherwise the links are
  substituted, starting from \<open>/\<close> for an absolute path whatever the number of its leading
  slashes and from the current directory for a relative one, and \<^verbatim>\<open>abspath\<close> normalises
  the outcome. A failing \<^verbatim>\<open>os.readlink\<close> is not caught.
\<close>

definition realpath :: "filesystem \<Rightarrow> string \<Rightarrow> exn + string" where
  "realpath fs filename =
     (if CHR 0x00 \<in> set filename then Inl (ValueError ''embedded null byte'')
      else
        (let full = (if prefix ''/'' filename then filename
                     else getcwd fs @ ''/'' @ filename)
         in case readlinks fs (visited full) of
              Inl e \<Rightarrow> Inl (OSError e)
            | Inr names \<Rightarrow> Inr (normpath (''/'' @ join_with ''/'' names))))"

text \<open>\<^verbatim>\<open>p.stat()\<close>: \<^verbatim>\<open>os.stat\<close> refuses a NUL character before it asks the system.\<close>

definition stat :: "filesystem \<Rightarrow> posix_path \<Rightarrow> exn + bool" where
  "stat fs p =
     (if CHR 0x00 \<in> set (str_of p) then Inl (ValueError ''embedded null byte'')
      else (case os_stat fs (str_of p) of
              Inl e \<Rightarrow> Inl (OSError e)
            | Inr d \<Rightarrow> Inr d))"

text \<open>
  \<^verbatim>\<open>p.resolve()\<close> as in Python 3.11 and 3.12: an \<^verbatim>\<open>OSError\<close> of \<^verbatim>\<open>realpath\<close> is raised
  again, as \<^verbatim>\<open>RuntimeError\<close> when its \<^verbatim>\<open>errno\<close> is \<^verbatim>\<open>ELOOP\<close>; then the result is
  \<^verbatim>\<open>stat\<close>ed, and of the \<^verbatim>\<open>OSError\<close>s of that call only \<^verbatim>\<open>ELOOP\<close> is turned into a
  \<^verbatim>\<open>RuntimeError\<close>, the others are dropped.
\<close>

definition resolve :: "filesystem \<Rightarrow> posix_path \<Rightarrow> exn + posix_path" where
  "resolve fs p =
     (case realpath fs (str_of p) of
        Inl (OSError e) \<Rightarrow>
          if errno e = ELOOP then Inl (RuntimeError (os_filename e)) else Inl (OSError e)
      | Inl e \<Rightarrow> Inl e
      | Inr s \<Rightarrow>
          (let q = Path s
           in case stat fs q of
                Inl (OSError e) \<Rightarrow>
                  if errno e = ELOOP then Inl (RuntimeError (os_filename e)) else Inr q
              | Inl e \<Rightarrow> Inl e
              | Inr _ \<Rightarrow> Inr q))"

text \<open>
  The errors that \<^verbatim>\<open>exists()\<close> and \<^verbatim>\<open>is_dir()\<close> take for the answer no
  (\<^verbatim>\<open>_ignore_error\<close>); they raise every other \<^verbatim>\<open>OSError\<close> again.
\<close>

definition ignore_error :: "os_error \<Rightarrow> bool" where
  "ignore_error e =
     (errno e = ENOENT \<or> errno e = ENOTDIR \<or> errno e = EBADF \<or> errno e = ELOOP)"

text \<open>\<^verbatim>\<open>p.exists()\<close>.\<close>

definition exists_path :: "filesystem \<Rightarrow> posix_path \<Rightarrow> exn + bool" where
  "exists_path fs p =
     (case stat fs p of
        Inl (OSError e) \<Rightarrow> if \<not> ignore_error e then Inl (OSError e) else Inr False
      | Inl (ValueError _) \<Rightarrow> Inr False
      | Inl e \<Rightarrow> Inl e
      | Inr _ \<Rightarrow> Inr True)"

text \<open>\<^verbatim>\<open>p.is_dir()\<close>.\<close>

definition is_dir :: "filesystem \<Rightarrow> posix_path \<Rightarrow> exn + bool" where
  "is_dir fs p =
     (case stat fs p of
        Inl (OSError e) \<Rightarrow> if \<not> ignore_error e then Inl (OSError e) else Inr False
      | Inl (ValueError _) \<Rightarrow> Inr False
      | Inl e \<Rightarrow> Inl e
      | Inr d \<Rightarrow> Inr d)"

text \<open>
  \<^verbatim>\<open>[p for p in ps if p.is_dir()]\<close>: the first \<^verbatim>\<open>is_dir()\<close> that raises ends the
  comprehension.
\<close>

fun filter_dirs :: "filesystem \<Rightarrow> posix_path list \<Rightarrow> exn + posix_path list" where
  "filter_dirs fs [] = Inr []"
| "filter_dirs fs (p # ps) =
     (case is_dir fs p of
        Inl e \<Rightarrow> Inl e
      | Inr d \<Rightarrow>
          (case filter_dirs fs ps of
             Inl e \<Rightarrow> Inl e
           | Inr ds \<Rightarrow> Inr (if d then p # ds else ds)))"

text \<open>\<^verbatim>\<open>p.iterdir()\<close>, read to its end: the children, or the text of the exception.\<close>

definition iterdir :: "filesystem \<Rightarrow> posix_path \<Rightarrow> string + posix_path list" where
  "iterdir fs p =
     (case listdir fs (str_of p) of
        Inl msg \<Rightarrow> Inl msg
      | Inr names \<Rightarrow> Inr (map (\<lambda>n. PosixPath (root p) (tail p @ [n])) names))"

text \<open>\<^verbatim>\<open>p.read_text(encoding="utf-8", errors="ignore")\<close>.\<close>

definition read_text :: "filesystem \<Rightarrow> posix_path \<Rightarrow> exn + string" where
  "read_text fs p =
     (if CHR 0x00 \<in> set (str_of p) then Inl (ValueError ''embedded null byte'')
      else (case file_text fs (str_of p) of
              Inl e \<Rightarrow> Inl (OSError e)
            | Inr content \<Rightarrow> Inr content))"

text \<open>
  The module constant \<^verbatim>\<open>WORKSPACE_ROOT\<close>: the environment variable of that name, or
  \<open>/workspaces\<close> when it is not set, resolved once in the file system found at start-up.
  The functions below take its value as the parameter \<open>ROOT\<close>.
\<close>

definition WORKSPACE_ROOT :: "filesystem \<Rightarrow> string option \<Rightarrow> exn + posix_path" where
  "WORKSPACE_ROOT fs environ =
     resolve fs (Path (case environ of None \<Rightarrow> ''/workspaces'' | Some v \<Rightarrow> v))"

subsection \<open>Decoding the output of a child process\<close>

type_synonym bytes = "8 word list"

definition cont :: "8 word \<Rightarrow> bool" where
  "cont b = (0x80 \<le> b \<and> b \<le> 0xBF)"

text \<open>Well-formed UTF-8: no overlong form, no surrogate, nothing above U+10FFFF.\<close>

fun utf8_valid :: "bytes \<Rightarrow> bool" where
  "utf8_valid [] = True"
| "utf8_valid (b # bs) =
     (if b \<le> 0x7F then utf8_valid bs
      else if 0xC2 \<le> b \<and> b \<le> 0xDF then
        (case bs of
           c1 # r \<Rightarrow> cont c1 \<and> utf8_valid r
         | _ \<Rightarrow> False)
      else if 0xE0 \<le> b \<and> b \<le> 0xEF then
        (case bs of
           c1 # c2 # r \<Rightarrow>
             (if b = 0xE0 then 0xA0 \<le> c1 \<and> c1 \<le> 0xBF
              else if b = 0xED then 0x80 \<le> c1 \<and> c1 \<le> 0x9F
              else cont c1)
             \<and> cont c2 \<and> utf8_valid r
         | _ \<Rightarrow> False)
      else if 0xF0 \<le> b \<and> b \<le> 0xF4 then
        (case bs of
           c1 # c2 # c3 # r \<Rightarrow>
             (if b = 0xF0 then 0x90 \<le> c1 \<and> c1 \<le> 0xBF
              else if b = 0xF4 then 0x80 \<le> c1 \<and> c1 \<le> 0x8F
              else cont c1)
             \<and> cont c2 \<and> cont c3 \<and> utf8_valid r
         | _ \<Rightarrow> False)
      else False)"

text \<open>
  \<^verbatim>\<open>b.decode()\<close>: UTF-8 with the error handler \<^verbatim>\<open>strict\<close>, the default of
  \<^verbatim>\<open>bytes.decode\<close>. The text is kept in its UTF-8 encoding.
\<close>

definition decode :: "bytes \<Rightarrow> exn + string" where
  "decode bs =
     (if utf8_valid bs then Inr (map (\<lambda>b. char_of (unat b)) bs)
      else Inl UnicodeDecodeError)"

subsection \<open>The world of the server\<close>

text \<open>
  A finished child process, and the shell: given the command line, the working directory
  and the file system, either the error of a failed spawn, or the finished process and
  the file system it leaves.
\<close>

record completed =
  returncode :: int
  stdout :: bytes
  stderr :: bytes

type_synonym shell =
  "string \<Rightarrow> string \<Rightarrow> filesystem \<Rightarrow> os_error + completed \<times> filesystem"

text \<open>
  The world: the file system, and the list of every call of
  \<^verbatim>\<open>asyncio.create_subprocess_shell\<close> so far, as command line and working directory.
\<close>

record world =
  files :: filesystem
  commands :: "(string \<times> string) list"

subsection \<open>The guidance text\<close>

text \<open>
  One line of \<^verbatim>\<open>workspace_overview\<close>: any exception while the subdirectories are listed
  and tested leaves the line without them.
\<close>

definition overview_line :: "filesystem \<Rightarrow> posix_path \<Rightarrow> string" where
  "overview_line fs d =
     (let subs = (case iterdir fs d of
                    Inl _ \<Rightarrow> []
                  | Inr ps \<Rightarrow>
                      (case filter_dirs fs ps of
                         Inl _ \<Rightarrow> []
                       | Inr ds \<Rightarrow> sort (map name ds)));
          suffix = (if subs \<noteq> []
                    then '' (subdirs: '' @ join_with '', '' (take 5 subs) @ '')''
                    else [])
      in ''  - '' @ name d @ suffix)"

text \<open>
  \<^verbatim>\<open>workspace_overview\<close>: the \<^verbatim>\<open>try\<close> covers the listing of the root only; an
  \<^verbatim>\<open>is_dir()\<close> of one of its entries that raises is not caught.
\<close>

definition workspace_overview :: "posix_path \<Rightarrow> filesystem \<Rightarrow> nat \<Rightarrow> exn + string" where
  "workspace_overview ROOT fs max_entries =
     (case iterdir fs ROOT of
        Inl exc \<Rightarrow> Inr (''(could not list '' @ str_of ROOT @ '': '' @ exc @ '')'')
      | Inr entries \<Rightarrow>
          (case filter_dirs fs entries of
             Inl e \<Rightarrow> Inl e
           | Inr ds \<Rightarrow>
               (let dirs = sort_key tail ds;
                    lines = [''- '' @ str_of ROOT]
                            @ map (overview_line fs) (take max_entries dirs)
                            @ (if length dirs > max_entries
                               then [''  - ... ('' @ str_nat (length dirs - max_entries)
                                     @ '' more)'']
                               else [])
                in Inr (join_with nl lines))))"

text \<open>The text of \<^verbatim>\<open>initial_guidance\<close> around a given overview.\<close>

definition guidance_text :: "posix_path \<Rightarrow> string \<Rightarrow> string" where
  "guidance_text ROOT overview =
     ''This MCP server runs inside a dev container. Use paths under ''
     @ str_of ROOT @ '' ''
     @ ''as seen inside the container; the server will reject paths outside this root. ''
     @ ''If you are on Windows, rewrite host paths like ''
     @ ''C:'' @ backslash @ ''Users'' @ backslash @ ''...'' @ backslash @ ''<repo>''
     @ backslash @ ''subdir'' @ backslash
     @ ''file.tex to /workspaces/<repo>/subdir/file.tex ''
     @ ''or a relative path under WORKSPACE_ROOT before calling the tools. ''
     @ ''The server does not auto-convert host paths. ''
     @ ''Workspace overview:'' @ nl @ overview"

definition initial_guidance :: "posix_path \<Rightarrow> filesystem \<Rightarrow> exn + string" where
  "initial_guidance ROOT fs =
     (case workspace_overview ROOT fs 10 of
        Inl e \<Rightarrow> Inl e
      | Inr overview \<Rightarrow> Inr (guidance_text ROOT overview))"

definition path_guidance :: "posix_path \<Rightarrow> filesystem \<Rightarrow> exn + string" where
  "path_guidance ROOT fs = initial_guidance ROOT fs"

subsection \<open>The path guard\<close>

text \<open>
  \<^verbatim>\<open>resolve_workspace_path\<close>. It reads the file system and changes nothing, so the world
  it returns is the one it was given. The message of its \<^verbatim>\<open>ValueError\<close> holds the
  guidance text; an exception raised while that text is built takes the place of the
  \<^verbatim>\<open>ValueError\<close>.
\<close>

definition resolve_workspace_path ::
  "posix_path \<Rightarrow> string \<Rightarrow> world \<Rightarrow> (exn + posix_path) \<times> world" where
  "resolve_workspace_path ROOT user_path w =
     (let candidate = Path user_path;
          abs_path = (if is_absolute candidate then candidate
                      else joinpath ROOT candidate)
      in case resolve (files w) abs_path of
           Inl e \<Rightarrow> (Inl e, w)
         | Inr abs_path \<Rightarrow>
             (case relative_to abs_path ROOT of
                Inl exc \<Rightarrow>
                  (case path_guidance ROOT (files w) of
                     Inl e \<Rightarrow> (Inl e, w)
                   | Inr guidance \<Rightarrow>
                       (Inl (ValueError
                          (''Path '' @ str_of abs_path @ '' is outside workspace root ''
                           @ str_of ROOT @ ''. '' @ guidance)), w))
              | Inr _ \<Rightarrow> (Inr abs_path, w)))"

subsection \<open>The command executor\<close>

text \<open>
  \<^verbatim>\<open>run_command_async\<close>. The call of the shell is recorded whether or not the spawn
  succeeds; an exception leaves the world as the child process left it.
\<close>

definition run_command_async ::
  "shell \<Rightarrow> string \<Rightarrow> posix_path \<Rightarrow> world \<Rightarrow> (exn + string) \<times> world" where
  "run_command_async sh cmd cwd w =
     (let w1 = w\<lparr>commands := commands w @ [(cmd, str_of cwd)]\<rparr>
      in case sh cmd (str_of cwd) (files w) of
           Inl e \<Rightarrow> (Inl (OSError e), w1)
         | Inr (proc, fs') \<Rightarrow>
             (let w2 = w1\<lparr>files := fs'\<rparr>;
                  log = ''> '' @ cmd @ nl @ nl
              in case (if stdout proc \<noteq> [] then decode (stdout proc) else Inr []) of
                   Inl e \<Rightarrow> (Inl e, w2)
                 | Inr out \<Rightarrow>
                     (case (if stderr proc \<noteq> [] then decode (stderr proc) else Inr []) of
                        Inl e \<Rightarrow> (Inl e, w2)
                      | Inr err \<Rightarrow>
                          (let log = log @ out @ err;
                               log = (if returncode proc \<noteq> 0
                                      then log @ nl @ nl
                                           @ ''[latex-mcp] Command exited with code ''
                                           @ str_int (returncode proc) @ nl
                                      else log)
                           in (Inr log, w2)))))"

subsection \<open>The tools\<close>

datatype engine = pdflatex | xelatex | lualatex

datatype clean_mode = mode_aux | mode_all

definition str_mode :: "clean_mode \<Rightarrow> string" where
  "str_mode m = (case m of mode_aux \<Rightarrow> ''aux'' | mode_all \<Rightarrow> ''all'')"

text \<open>
  \<^verbatim>\<open>build_latex\<close>; \<open>None\<close> for \<open>engine\<close> is the call that leaves the argument out. Only
  the \<^verbatim>\<open>ValueError\<close> of the guard is caught; every other exception leaves the tool.
\<close>

definition build_latex ::
  "shell \<Rightarrow> posix_path \<Rightarrow> string \<Rightarrow> engine option \<Rightarrow> world \<Rightarrow> (exn + string) \<times> world" where
  "build_latex sh ROOT file engine_arg w =
     (let engine = (case engine_arg of None \<Rightarrow> pdflatex | Some e \<Rightarrow> e)
      in case resolve_workspace_path ROOT file w of
           (Inl (ValueError exc), w) \<Rightarrow> (Inr (''ERROR: '' @ exc), w)
         | (Inl e, w) \<Rightarrow> (Inl e, w)
         | (Inr abs_path, w) \<Rightarrow>
             (case exists_path (files w) abs_path of
                Inl e \<Rightarrow> (Inl e, w)
              | Inr False \<Rightarrow>
                  (case path_guidance ROOT (files w) of
                     Inl e \<Rightarrow> (Inl e, w)
                   | Inr guidance \<Rightarrow>
                       (Inr (''ERROR: File not found: '' @ str_of abs_path @ nl
                             @ guidance), w))
              | Inr True \<Rightarrow>
               (let cwd = parent abs_path;
                    filename = name abs_path;
                    engine_flag = (if engine = xelatex then ''-pdfxe''
                                   else if engine = lualatex then ''-pdflua''
                                   else ''-pdf'');
                    cmd = join_with '' ''
                            [''latexmk'', ''-synctex=1'', ''-interaction=nonstopmode'',
                             ''-file-line-error'', engine_flag, dquote @ filename @ dquote]
                in case run_command_async sh cmd cwd w of
                     (Inl e, w) \<Rightarrow> (Inl e, w)
                   | (Inr log, w) \<Rightarrow>
                       (let base = stem abs_path;
                            pdf_path = joinpath cwd (Path (base @ ''.pdf''))
                        in case exists_path (files w) pdf_path of
                             Inl e \<Rightarrow> (Inl e, w)
                           | Inr pdf_exists \<Rightarrow>
                               (let summary =
                                      ''build_latex finished.'' @ nl @ nl
                                      @ ''Working directory: '' @ str_of cwd @ nl
                                      @ ''Command: '' @ cmd @ nl
                                      @ ''PDF exists: ''
                                      @ (if pdf_exists then str_of pdf_path else ''NO'')
                                      @ nl @ nl
                                      @ ''--- Latexmk log ---'' @ nl @ log
                                in (Inr summary, w))))))"

text \<open>\<^verbatim>\<open>clean_latex\<close>; \<open>None\<close> for \<open>mode\<close> is the call that leaves the argument out.\<close>

definition clean_latex ::
  "shell \<Rightarrow> posix_path \<Rightarrow> string \<Rightarrow> clean_mode option \<Rightarrow> world \<Rightarrow> (exn + string) \<times> world" where
  "clean_latex sh ROOT file mode_arg w =
     (let mode = (case mode_arg of None \<Rightarrow> mode_aux | Some m \<Rightarrow> m)
      in case resolve_workspace_path ROOT file w of
           (Inl (ValueError exc), w) \<Rightarrow> (Inr (''ERROR: '' @ exc), w)
         | (Inl e, w) \<Rightarrow> (Inl e, w)
         | (Inr abs_path, w) \<Rightarrow>
             (case exists_path (files w) abs_path of
                Inl e \<Rightarrow> (Inl e, w)
              | Inr False \<Rightarrow>
                  (case path_guidance ROOT (files w) of
                     Inl e \<Rightarrow> (Inl e, w)
                   | Inr guidance \<Rightarrow>
                       (Inr (''ERROR: File not found: '' @ str_of abs_path @ nl
                             @ guidance), w))
              | Inr True \<Rightarrow>
               (let cwd = parent abs_path;
                    filename = name abs_path;
                    flag = (if mode = mode_all then ''-C'' else ''-c'');
                    cmd = ''latexmk '' @ flag @ '' '' @ dquote @ filename @ dquote
                in case run_command_async sh cmd cwd w of
                     (Inl e, w) \<Rightarrow> (Inl e, w)
                   | (Inr log, w) \<Rightarrow>
                       (let msg =
                              ''clean_latex finished.'' @ nl
                              @ ''Mode: '' @ str_mode mode @ nl
                              @ ''Command: '' @ cmd @ nl @ nl
                              @ ''--- Latexmk log ---'' @ nl @ log
                        in (Inr msg, w)))))"

text \<open>\<^verbatim>\<open>read_latex_log\<close>.\<close>

definition read_latex_log ::
  "posix_path \<Rightarrow> string \<Rightarrow> world \<Rightarrow> (exn + string) \<times> world" where
  "read_latex_log ROOT file w =
     (case resolve_workspace_path ROOT file w of
        (Inl (ValueError exc), w) \<Rightarrow> (Inr (''ERROR: '' @ exc), w)
      | (Inl e, w) \<Rightarrow> (Inl e, w)
      | (Inr abs_path, w) \<Rightarrow>
          (let cwd = parent abs_path;
               base = stem abs_path;
               log_path = joinpath cwd (Path (base @ ''.log''))
           in case exists_path (files w) log_path of
                Inl e \<Rightarrow> (Inl e, w)
              | Inr False \<Rightarrow>
                  (case path_guidance ROOT (files w) of
                     Inl e \<Rightarrow> (Inl e, w)
                   | Inr guidance \<Rightarrow>
                       (Inr (''Log file not found: '' @ str_of log_path @ nl
                             @ ''You may need to run build_latex first.'' @ nl
                             @ guidance), w))
              | Inr True \<Rightarrow>
                  (case read_text (files w) log_path of
                     Inl e \<Rightarrow> (Inl e, w)
                   | Inr content \<Rightarrow>
                       (Inr (''Log path: '' @ str_of log_path @ nl @ nl @ content), w))))"

subsection \<open>Notions of the specification\<close>

text \<open>
  Containment as the specification words it: the path is the workspace root, or the
  names of the root are a proper prefix of its names, name by name.
\<close>

definition spec_within_root :: "posix_path \<Rightarrow> posix_path \<Rightarrow> bool" where
  "spec_within_root ROOT q =
     (q = ROOT \<or> (root q = root ROOT \<and> strict_prefix (tail ROOT) (tail q)))"

text \<open>A name as \<open>Path\<close> keeps it, and a name of a normalised path.\<close>

definition plain_name :: "string \<Rightarrow> bool" where
  "plain_name x = (x \<noteq> [] \<and> x \<noteq> ''.'' \<and> CHR ''/'' \<notin> set x)"

definition normal_name :: "string \<Rightarrow> bool" where
  "normal_name x = (plain_name x \<and> x \<noteq> ''..'')"

subsection \<open>Workspaces to run the model on\<close>

definition no_entry :: "string \<Rightarrow> os_error" where
  "no_entry s = OsError ENOENT ''No such file or directory'' s"

text \<open>
  A file system without symbolic links that holds \<open>/workspaces/demo/main.tex\<close> and,
  beside the workspace, the file \<open>/workspaces.log\<close>.
\<close>

definition demo_fs :: filesystem where
  "demo_fs =
     \<lparr>readlinks = (\<lambda>ns. Inr ns),
      getcwd = ''/'',
      os_stat = (\<lambda>s. if s = ''/'' \<or> s = ''/workspaces'' \<or> s = ''/workspaces/demo''
                      then Inr True
                      else if s = ''/workspaces/demo/main.tex'' \<or> s = ''/workspaces.log''
                      then Inr False
                      else Inl (no_entry s)),
      listdir = (\<lambda>s. if s = ''/workspaces'' then Inr [''demo'']
                      else if s = ''/workspaces/demo'' then Inr [''main.tex'']
                      else Inl ''not a directory''),
      file_text = (\<lambda>s. if s = ''/workspaces.log'' then Inr ''outside''
                        else Inl (no_entry s))\<rparr>"

definition demo_world :: world where
  "demo_world = \<lparr>files = demo_fs, commands = []\<rparr>"

definition demo_root :: posix_path where
  "demo_root = PosixPath ''/'' [''workspaces'']"

text \<open>
  The same workspace with three more things in it: \<open>demo/loop.tex\<close>, a symbolic link
  to itself; \<open>mnt\<close>, a mount of another user, where every \<^verbatim>\<open>stat\<close> is refused; and
  \<open>long_name\<close>, an existing file whose name has 253 characters and no suffix. A name of
  more than 255 characters is refused by every \<^verbatim>\<open>stat\<close>.
\<close>

definition long_name :: string where
  "long_name = replicate 253 (CHR ''a'')"

definition faulty_fs :: filesystem where
  "faulty_fs =
     \<lparr>readlinks = (\<lambda>ns. Inr ns),
      getcwd = ''/'',
      os_stat = (\<lambda>s. if list_ex (\<lambda>x. 255 < length x) (split_sep s)
                      then Inl (OsError ENAMETOOLONG ''File name too long'' s)
                      else if s = ''/workspaces/mnt'' \<or> prefix ''/workspaces/mnt/'' s
                      then Inl (OsError EACCES ''Permission denied'' s)
                      else if s = ''/workspaces/demo/loop.tex''
                      then Inl (OsError ELOOP ''Too many levels of symbolic links'' s)
                      else if s = ''/workspaces/'' @ long_name
                      then Inr False
                      else os_stat demo_fs s),
      listdir = (\<lambda>s. if s = ''/workspaces'' then Inr [''demo'', ''mnt'', long_name]
                      else if s = ''/workspaces/demo'' then Inr [''main.tex'', ''loop.tex'']
                      else Inl ''not a directory''),
      file_text = (\<lambda>s. Inl (no_entry s))\<rparr>"

definition faulty_world :: world where
  "faulty_world = \<lparr>files = faulty_fs, commands = []\<rparr>"

text \<open>A shell whose command prints \<open>ok\<close>, leaves \<open>main.pdf\<close> and exits with code 12.\<close>

definition demo_sh :: shell where
  "demo_sh cmd cwd fs =
     Inr (\<lparr>returncode = 12, stdout = [0x6F, 0x6B], stderr = []\<rparr>,
          fs\<lparr>os_stat := (\<lambda>s. if s = ''/workspaces/demo/main.pdf'' then Inr False
                              else os_stat fs s)\<rparr>)"

text \<open>A shell whose command prints the single byte \<open>0xFF\<close> and exits with code 0.\<close>

definition latin_sh :: shell where
  "latin_sh cmd cwd fs = Inr (\<lparr>returncode = 0, stdout = [0xFF], stderr = []\<rparr>, fs)"

text \<open>A shell whose command prints nothing, changes nothing and exits with code 0.\<close>

definition idle_sh :: shell where
  "idle_sh cmd cwd fs = Inr (\<lparr>returncode = 0, stdout = [], stderr = []\<rparr>, fs)"

section \<open>Properties\<close>

subsection \<open>Splitting and joining\<close>

lemma split_sep_not_Nil: "split_sep s \<noteq> []"
  by (induction s) (auto split: list.splits)

lemma split_sep_no_sep: "x \<in> set (split_sep s) \<Longrightarrow> CHR ''/'' \<notin> set x"
proof (induction s arbitrary: x)
  case Nil
  then show ?case by simp
next
  case (Cons c cs)
  show ?case
  proof (cases "c = CHR ''/''")
    case True
    with Cons show ?thesis by auto
  next
    case False
    obtain y ys where ys: "split_sep cs = y # ys"
      using split_sep_not_Nil [of cs] by (cases "split_sep cs") auto
    with Cons False show ?thesis by auto
  qed
qed

lemma split_sep_append: "split_sep (a @ CHR ''/'' # b) = split_sep a @ split_sep b"
proof (induction a)
  case Nil
  then show ?case by simp
next
  case (Cons c cs)
  obtain y ys where ys: "split_sep cs = y # ys"
    using split_sep_not_Nil [of cs] by (cases "split_sep cs") auto
  with Cons show ?case by simp
qed

lemma split_sep_plain: "CHR ''/'' \<notin> set x \<Longrightarrow> split_sep x = [x]"
  by (induction x) auto

lemma split_sep_join:
  "xs \<noteq> [] \<Longrightarrow> \<forall>x\<in>set xs. CHR ''/'' \<notin> set x \<Longrightarrow> split_sep (join_with ''/'' xs) = xs"
proof (induction "''/''" xs rule: join_with.induct)
  case 1
  then show ?case by simp
next
  case (2 x)
  then show ?case by (simp add: split_sep_plain)
next
  case (3 x y ys)
  then show ?case by (simp add: split_sep_append split_sep_plain)
qed

lemma join_with_Nil_iff:
  "\<forall>x\<in>set xs. x \<noteq> [] \<Longrightarrow> join_with j xs = [] \<longleftrightarrow> xs = []"
  by (induction j xs rule: join_with.induct) auto

lemma hd_join_with:
  "xs \<noteq> [] \<Longrightarrow> hd xs \<noteq> [] \<Longrightarrow> hd (join_with j xs) = hd (hd xs)"
  by (induction j xs rule: join_with.induct) auto

lemma visited_plain: "x \<in> set (visited s) \<Longrightarrow> plain_name x"
  by (auto simp: visited_def plain_name_def dest: split_sep_no_sep)

lemma visited_join:
  assumes "\<forall>x\<in>set xs. plain_name x"
  shows "visited (join_with ''/'' xs) = xs"
proof (cases "xs = []")
  case True
  then show ?thesis by (simp add: visited_def)
next
  case False
  from assms have "\<forall>x\<in>set xs. CHR ''/'' \<notin> set x" by (simp add: plain_name_def)
  with False have "split_sep (join_with ''/'' xs) = xs" by (rule split_sep_join)
  moreover from assms have "filter (\<lambda>x. x \<noteq> [] \<and> x \<noteq> ''.'') xs = xs"
    by (auto simp: plain_name_def filter_id_conv)
  ultimately show ?thesis by (simp add: visited_def)
qed

lemma visited_slash: "visited (CHR ''/'' # s) = visited s"
  by (simp add: visited_def)

lemma visited_append: "visited (a @ CHR ''/'' # b) = visited a @ visited b"
  by (simp add: visited_def split_sep_append)

lemma dropWhile_join_plain:
  assumes "\<forall>x\<in>set xs. plain_name x"
  shows "dropWhile (\<lambda>c. c = CHR ''/'') (join_with ''/'' xs) = join_with ''/'' xs"
proof (cases xs)
  case Nil
  then show ?thesis by simp
next
  case (Cons x xs')
  with assms have x: "x \<noteq> []" "CHR ''/'' \<notin> set x" by (simp_all add: plain_name_def)
  then have "hd x \<noteq> CHR ''/''" by (cases x) auto
  moreover have "hd (join_with ''/'' xs) = hd x" "join_with ''/'' xs \<noteq> []"
    using Cons x assms hd_join_with [of xs "''/''"] join_with_Nil_iff [of xs "''/''"]
    by (auto simp: plain_name_def)
  ultimately show ?thesis by (cases "join_with ''/'' xs") auto
qed

subsection \<open>Parsing\<close>

lemma tail_Path: "tail (Path s) = visited (snd (splitroot s))"
  by (simp add: Path_def visited_def split: prod.splits)

lemma tail_Path_plain: "x \<in> set (tail (Path s)) \<Longrightarrow> plain_name x"
  by (simp add: tail_Path visited_plain)

lemma is_absolute_Path: "is_absolute (Path s) \<longleftrightarrow> prefix ''/'' s"
  by (cases s) (auto simp: is_absolute_def Path_def splitroot_def Let_def split: prod.splits)

lemma Path_relative: "\<not> prefix ''/'' p \<Longrightarrow> Path p = PosixPath [] (visited p)"
  by (cases p) (auto simp: Path_def splitroot_def visited_def)

lemma Path_slashes_join:
  assumes "\<forall>x\<in>set xs. plain_name x" and "k = 1 \<or> k = 2"
  shows "Path (replicate k (CHR ''/'') @ join_with ''/'' xs)
         = PosixPath (if k = 2 then ''//'' else ''/'') xs"
proof -
  let ?j = "join_with ''/'' xs"
  have d: "dropWhile (\<lambda>c. c = CHR ''/'') (replicate k (CHR ''/'') @ ?j) = ?j"
    using dropWhile_join_plain [OF assms(1)] by (simp add: dropWhile_append)
  have "splitroot (replicate k (CHR ''/'') @ ?j) = (if k = 2 then ''//'' else ''/'', ?j)"
    using assms(2) d by (auto simp: splitroot_def Let_def)
  then show ?thesis
    using visited_join [OF assms(1)] by (simp add: Path_def visited_def)
qed

subsection \<open>Containment\<close>

lemma strict_prefix_take:
  "strict_prefix xs ys \<longleftrightarrow> (\<exists>k<length ys. xs = take k ys)"
proof
  assume "strict_prefix xs ys"
  then obtain zs where zs: "ys = xs @ zs" "zs \<noteq> []"
    by (auto simp: strict_prefix_def prefix_def)
  then have "length xs < length ys" "xs = take (length xs) ys" by simp_all
  then show "\<exists>k<length ys. xs = take k ys" by blast
next
  assume "\<exists>k<length ys. xs = take k ys"
  then obtain k where k: "k < length ys" "xs = take k ys" by blast
  then have "prefix xs ys" by (simp add: take_is_prefix)
  moreover from k have "length xs < length ys" by simp
  then have "xs \<noteq> ys" by auto
  ultimately show "strict_prefix xs ys" by (simp add: strict_prefix_def)
qed

lemma parents_iff:
  "other \<in> set (parents p) \<longleftrightarrow> root other = root p \<and> strict_prefix (tail other) (tail p)"
proof -
  have "other \<in> set (parents p) \<longleftrightarrow>
        (\<exists>k<length (tail p). other = PosixPath (root p) (take k (tail p)))"
    by (auto simp: parents_def)
  also have "\<dots> \<longleftrightarrow> root other = root p \<and> (\<exists>k<length (tail p). tail other = take k (tail p))"
    by (cases other) auto
  finally show ?thesis by (simp add: strict_prefix_take)
qed

lemma is_relative_to_iff: "is_relative_to p other \<longleftrightarrow> spec_within_root other p"
  by (auto simp: is_relative_to_def spec_within_root_def parents_iff)

subsection \<open>Normalisation\<close>

lemma normpath_comps_normal:
  "\<forall>x\<in>set acc. normal_name x \<Longrightarrow> \<forall>x\<in>set xs. CHR ''/'' \<notin> set x \<Longrightarrow>
   \<forall>x\<in>set (normpath_comps True acc xs). normal_name x"
proof (induction xs arbitrary: acc)
  case Nil
  then show ?case by simp
next
  case (Cons c cs)
  have tl: "\<forall>x\<in>set cs. CHR ''/'' \<notin> set x" using Cons.prems(2) by simp
  have c: "CHR ''/'' \<notin> set c" using Cons.prems(2) by simp
  have last: "acc \<noteq> [] \<Longrightarrow> last acc \<noteq> ''..''"
    using Cons.prems(1) last_in_set [of acc] by (auto simp: normal_name_def)
  have butlast: "\<forall>x\<in>set (butlast acc). normal_name x"
    using Cons.prems(1) by (auto dest: in_set_butlastD)
  consider (skip) "c = [] \<or> c = ''.''" | (up) "c = ''..''"
    | (down) "c \<noteq> []" "c \<noteq> ''.''" "c \<noteq> ''..''"
    by blast
  then show ?case
  proof cases
    case skip
    then show ?thesis using Cons.IH [OF Cons.prems(1) tl] by auto
  next
    case up
    then show ?thesis
      using Cons.IH [OF Cons.prems(1) tl] Cons.IH [OF butlast tl] last by auto
  next
    case down
    then have "\<forall>x\<in>set (acc @ [c]). normal_name x"
      using Cons.prems(1) c by (auto simp: normal_name_def plain_name_def)
    from Cons.IH [OF this tl] down show ?thesis by auto
  qed
qed

lemma initial_slashes_abs:
  "initial_slashes (CHR ''/'' # s) = 1 \<or> initial_slashes (CHR ''/'' # s) = 2"
  by (simp add: initial_slashes_def)

lemma Path_normpath_abs:
  "\<exists>r xs. Path (normpath (CHR ''/'' # s)) = PosixPath r xs
          \<and> (r = ''/'' \<or> r = ''//'') \<and> (\<forall>x\<in>set xs. normal_name x)"
proof -
  let ?k = "initial_slashes (CHR ''/'' # s)"
  let ?xs = "normpath_comps True [] (split_sep (CHR ''/'' # s))"
  have k: "?k = 1 \<or> ?k = 2" by (rule initial_slashes_abs)
  have "\<forall>x\<in>set (split_sep (CHR ''/'' # s)). CHR ''/'' \<notin> set x"
    using split_sep_no_sep by blast
  then have n: "\<forall>x\<in>set ?xs. normal_name x"
    using normpath_comps_normal [of "[]"] by simp
  then have p: "\<forall>x\<in>set ?xs. plain_name x" by (simp add: normal_name_def)
  have "normpath (CHR ''/'' # s) = replicate ?k (CHR ''/'') @ join_with ''/'' ?xs"
    using k by (auto simp: normpath_def Let_def)
  then have "Path (normpath (CHR ''/'' # s)) = PosixPath (if ?k = 2 then ''//'' else ''/'') ?xs"
    using Path_slashes_join [OF p k] by simp
  with n show ?thesis by auto
qed

text \<open>What \<open>resolve\<close> returns is absolute and has neither \<open>.\<close> nor \<open>..\<close> among its names.\<close>

lemma resolve_normal:
  assumes "resolve fs p = Inr q"
  shows "(root q = ''/'' \<or> root q = ''//'') \<and> (\<forall>x\<in>set (tail q). normal_name x)"
proof -
  from assms obtain s where "q = Path (normpath (CHR ''/'' # s))"
    by (auto simp: resolve_def realpath_def Let_def
             split: if_splits sum.splits exn.splits)
  with Path_normpath_abs [of s] show ?thesis by auto
qed

lemma split_sep_str_of:
  assumes "root q = ''/'' \<or> root q = ''//''" and "\<forall>x\<in>set (tail q). plain_name x"
  shows "set (split_sep (str_of q)) \<subseteq> insert [] (set (tail q))"
proof (cases "tail q = []")
  case True
  with assms(1) show ?thesis by (auto simp: str_of_def)
next
  case False
  from assms(2) have "\<forall>x\<in>set (tail q). CHR ''/'' \<notin> set x" by (simp add: plain_name_def)
  with False have "split_sep (join_with ''/'' (tail q)) = tail q" by (rule split_sep_join)
  with assms(1) show ?thesis by (auto simp: str_of_def)
qed

lemma realpath_abs:
  assumes "r = ''/'' \<or> r = ''//''" and "\<forall>x\<in>set xs. plain_name x"
  shows "realpath fs (str_of (PosixPath r xs)) =
           (if CHR 0x00 \<in> set (join_with ''/'' xs) then Inl (ValueError ''embedded null byte'')
            else (case readlinks fs xs of
                    Inl e \<Rightarrow> Inl (OSError e)
                  | Inr names \<Rightarrow> Inr (normpath (''/'' @ join_with ''/'' names))))"
  using assms(1) visited_join [OF assms(2)]
  by (auto simp: realpath_def str_of_def visited_slash Let_def)

text \<open>The number of leading slashes of an absolute path does not matter to \<open>resolve\<close>.\<close>

lemma resolve_abs_root:
  assumes "r = ''/'' \<or> r = ''//''" and "\<forall>x\<in>set xs. plain_name x"
  shows "resolve fs (PosixPath r xs) = resolve fs (PosixPath ''/'' xs)"
  using realpath_abs [OF assms, of fs] realpath_abs [OF _ assms(2), of "''/''" fs]
  by (simp add: resolve_def)

lemma Path_root_concat:
  assumes "root R = ''/'' \<or> root R = ''//''" and "\<forall>x\<in>set (tail R). plain_name x"
    and "\<not> prefix ''/'' p"
  shows "\<exists>r. (r = ''/'' \<or> r = ''//'')
             \<and> Path (str_of R @ ''/'' @ p) = PosixPath r (tail R @ tail (Path p))"
proof (cases "tail R = []")
  case True
  have d: "dropWhile (\<lambda>c. c = CHR ''/'') p = p"
    using assms(3) by (cases p) auto
  have "splitroot (''//'' @ p) = (''//'', p)" "splitroot (''///'' @ p) = (''/'', p)"
    using d by (simp_all add: splitroot_def Let_def)
  then have "Path (str_of R @ ''/'' @ p)
             = PosixPath (if root R = ''/'' then ''//'' else ''/'') (visited p)"
    using True assms(1) by (auto simp: Path_def str_of_def visited_def)
  with True assms(3) show ?thesis by (simp add: Path_relative)
next
  case False
  let ?j = "join_with ''/'' (tail R)"
  have j: "?j \<noteq> []" "hd ?j \<noteq> CHR ''/''"
    using False assms(2) dropWhile_join_plain [OF assms(2)] join_with_Nil_iff [of "tail R" "''/''"]
    by (auto simp: plain_name_def dropWhile_eq_self_iff)
  then have d: "dropWhile (\<lambda>c. c = CHR ''/'') (?j @ CHR ''/'' # p) = ?j @ CHR ''/'' # p"
    by (cases ?j) auto
  have "splitroot (CHR ''/'' # ?j @ CHR ''/'' # p) = (''/'', ?j @ CHR ''/'' # p)"
       "splitroot (CHR ''/'' # CHR ''/'' # ?j @ CHR ''/'' # p) = (''//'', ?j @ CHR ''/'' # p)"
    using d by (simp_all add: splitroot_def Let_def)
  then have "Path (str_of R @ ''/'' @ p) = PosixPath (root R) (visited (?j @ CHR ''/'' # p))"
    using assms(1) by (auto simp: Path_def str_of_def visited_def)
  then show ?thesis
    using assms(1,3) visited_join [OF assms(2)] by (auto simp: visited_append Path_relative)
qed

subsection \<open>The path guard\<close>

lemma resolve_workspace_path_cases:
  assumes "resolve (files w)
             (if is_absolute (Path p) then Path p else joinpath ROOT (Path p)) = Inr q"
  shows "resolve_workspace_path ROOT p w =
           (if spec_within_root ROOT q then (Inr q, w)
            else (case path_guidance ROOT (files w) of
                    Inl e \<Rightarrow> (Inl e, w)
                  | Inr guidance \<Rightarrow>
                      (Inl (ValueError
                         (''Path '' @ str_of q @ '' is outside workspace root ''
                          @ str_of ROOT @ ''. '' @ guidance)), w)))"
  using assms
  by (simp add: resolve_workspace_path_def relative_to_def is_relative_to_iff Let_def)

lemma resolve_workspace_path_raises:
  assumes "resolve (files w)
             (if is_absolute (Path p) then Path p else joinpath ROOT (Path p)) = Inl e"
  shows "resolve_workspace_path ROOT p w = (Inl e, w)"
  using assms by (simp add: resolve_workspace_path_def Let_def)

lemma resolve_workspace_path_world: "snd (resolve_workspace_path ROOT p w) = w"
  by (simp add: resolve_workspace_path_def Let_def split: sum.splits)

lemma resolve_workspace_path_root_concat:
  assumes "root R = ''/'' \<or> root R = ''//''" and "\<forall>x\<in>set (tail R). plain_name x"
    and "\<not> is_absolute (Path p)"
  shows "resolve_workspace_path R p w = resolve_workspace_path R (str_of R @ ''/'' @ p) w"
proof -
  from assms(3) have rel: "\<not> prefix ''/'' p" by (simp add: is_absolute_Path)
  from Path_root_concat [OF assms(1,2) rel] obtain r where
    r: "r = ''/'' \<or> r = ''//''"
    and P: "Path (str_of R @ ''/'' @ p) = PosixPath r (tail R @ tail (Path p))"
    by blast
  have pl: "\<forall>x\<in>set (tail R @ tail (Path p)). plain_name x"
    using assms(2) tail_Path_plain by auto
  have "resolve (files w) (PosixPath r (tail R @ tail (Path p)))
        = resolve (files w) (PosixPath (root R) (tail R @ tail (Path p)))"
    using resolve_abs_root [OF r pl] resolve_abs_root [OF assms(1) pl] by simp
  moreover have "is_absolute (PosixPath r (tail R @ tail (Path p)))"
    using r by (auto simp: is_absolute_def)
  ultimately show ?thesis
    using assms(3) P by (simp add: resolve_workspace_path_def joinpath_def Let_def)
qed

lemma resolve_workspace_path_eq:
  "fst (resolve_workspace_path ROOT p w) = r \<Longrightarrow> resolve_workspace_path ROOT p w = (r, w)"
  using resolve_workspace_path_world [of ROOT p w] by (cases "resolve_workspace_path ROOT p w") simp

subsection \<open>The command executor\<close>

lemma run_command_async_commands:
  "commands (snd (run_command_async sh cmd cwd w)) = commands w @ [(cmd, str_of cwd)]"
  by (simp add: run_command_async_def Let_def split: sum.splits prod.splits)

lemma run_command_async_cong:
  "sh cmd (str_of cwd) (files w) = sh' cmd (str_of cwd) (files w) \<Longrightarrow>
   run_command_async sh cmd cwd w = run_command_async sh' cmd cwd w"
  by (simp add: run_command_async_def)

lemma run_command_async_ok:
  assumes "sh cmd (str_of cwd) (files w) = Inr (proc, fs')"
    and "utf8_valid (stdout proc)" and "utf8_valid (stderr proc)"
  shows "run_command_async sh cmd cwd w =
           (Inr (''> '' @ cmd @ nl @ nl
                 @ map (\<lambda>b. char_of (unat b)) (stdout proc)
                 @ map (\<lambda>b. char_of (unat b)) (stderr proc)
                 @ (if returncode proc \<noteq> 0
                    then nl @ nl @ ''[latex-mcp] Command exited with code ''
                         @ str_int (returncode proc) @ nl
                    else [])),
            w\<lparr>commands := commands w @ [(cmd, str_of cwd)], files := fs'\<rparr>)"
  using assms by (simp add: run_command_async_def decode_def Let_def)

subsection \<open>The tools\<close>

lemma snd_case_run:
  "snd (case r of (Inl e, w') \<Rightarrow> (Inl e, w') | (Inr log, w') \<Rightarrow> (Inr (f log w'), w')) = snd r"
  by (simp split: prod.splits sum.splits)

lemma snd_case_build:
  "snd (case r of
          (Inl e, w') \<Rightarrow> (Inl e, w')
        | (Inr log, w') \<Rightarrow>
            (case g w' of Inl e \<Rightarrow> (Inl e, w') | Inr b \<Rightarrow> (Inr (f b log w'), w'))) = snd r"
  by (simp split: prod.splits sum.splits)

lemma build_latex_run:
  assumes "fst (resolve_workspace_path ROOT file w) = Inr abs_path"
    and "exists_path (files w) abs_path = Inr True"
    and "flag = (case engine of None \<Rightarrow> ''-pdf'' | Some pdflatex \<Rightarrow> ''-pdf''
                 | Some xelatex \<Rightarrow> ''-pdfxe'' | Some lualatex \<Rightarrow> ''-pdflua'')"
    and "cmd = ''latexmk -synctex=1 -interaction=nonstopmode -file-line-error '' @ flag
               @ '' '' @ dquote @ name abs_path @ dquote"
    and "pdf_path = joinpath (parent abs_path) (Path (stem abs_path @ ''.pdf''))"
  shows "build_latex sh ROOT file engine w =
    (case run_command_async sh cmd (parent abs_path) w of
       (Inl e, w') \<Rightarrow> (Inl e, w')
     | (Inr log, w') \<Rightarrow>
         (case exists_path (files w') pdf_path of
            Inl e \<Rightarrow> (Inl e, w')
          | Inr pdf_exists \<Rightarrow>
              (Inr (''build_latex finished.'' @ nl @ nl
                    @ ''Working directory: '' @ str_of (parent abs_path) @ nl
                    @ ''Command: '' @ cmd @ nl
                    @ ''PDF exists: ''
                    @ (if pdf_exists then str_of pdf_path else ''NO'')
                    @ nl @ nl @ ''--- Latexmk log ---'' @ nl @ log), w')))"
proof -
  have r: "resolve_workspace_path ROOT file w = (Inr abs_path, w)"
    using assms(1) by (rule resolve_workspace_path_eq)
  show ?thesis
    unfolding assms(3,4,5)
    by (cases engine; cases "the engine")
       (simp_all add: build_latex_def r assms(2) Let_def split: prod.splits sum.splits)
qed

lemma build_latex_spawns:
  assumes "fst (resolve_workspace_path ROOT file w) = Inr abs_path"
    and "exists_path (files w) abs_path = Inr True"
    and "flag = (case engine of None \<Rightarrow> ''-pdf'' | Some pdflatex \<Rightarrow> ''-pdf''
                 | Some xelatex \<Rightarrow> ''-pdfxe'' | Some lualatex \<Rightarrow> ''-pdflua'')"
    and "cmd = ''latexmk -synctex=1 -interaction=nonstopmode -file-line-error '' @ flag
               @ '' '' @ dquote @ name abs_path @ dquote"
  shows "commands (snd (build_latex sh ROOT file engine w))
           = commands w @ [(cmd, str_of (parent abs_path))]"
proof -
  note run = build_latex_run [OF assms refl]
  have "snd (build_latex sh ROOT file engine w)
          = snd (run_command_async sh cmd (parent abs_path) w)"
    by (simp only: run snd_case_build)
  then show ?thesis by (simp only: run_command_async_commands)
qed

lemma build_latex_reject:
  assumes "fst (resolve_workspace_path ROOT file w) = Inl (ValueError msg)"
  shows "build_latex sh ROOT file engine w = (Inr (''ERROR: '' @ msg), w)"
proof -
  from assms have r: "resolve_workspace_path ROOT file w = (Inl (ValueError msg), w)"
    by (rule resolve_workspace_path_eq)
  show ?thesis unfolding build_latex_def Let_def r by simp
qed

lemma build_latex_raise:
  assumes "fst (resolve_workspace_path ROOT file w) = Inl e" and "\<forall>msg. e \<noteq> ValueError msg"
  shows "build_latex sh ROOT file engine w = (Inl e, w)"
proof -
  from assms(1) have r: "resolve_workspace_path ROOT file w = (Inl e, w)"
    by (rule resolve_workspace_path_eq)
  show ?thesis unfolding build_latex_def Let_def r using assms(2) by (cases e) simp_all
qed

lemma build_latex_stat_raise:
  assumes "fst (resolve_workspace_path ROOT file w) = Inr abs_path"
    and "exists_path (files w) abs_path = Inl e"
  shows "build_latex sh ROOT file engine w = (Inl e, w)"
proof -
  from assms(1) have r: "resolve_workspace_path ROOT file w = (Inr abs_path, w)"
    by (rule resolve_workspace_path_eq)
  show ?thesis unfolding build_latex_def Let_def r by (simp add: assms(2))
qed

lemma build_latex_not_found:
  assumes "fst (resolve_workspace_path ROOT file w) = Inr abs_path"
    and "exists_path (files w) abs_path = Inr False"
  shows "build_latex sh ROOT file engine w =
           (case path_guidance ROOT (files w) of
              Inl e \<Rightarrow> (Inl e, w)
            | Inr guidance \<Rightarrow>
                (Inr (''ERROR: File not found: '' @ str_of abs_path @ nl @ guidance), w))"
proof -
  have r: "resolve_workspace_path ROOT file w = (Inr abs_path, w)"
    using assms(1) by (rule resolve_workspace_path_eq)
  show ?thesis unfolding build_latex_def Let_def r by (simp add: assms(2))
qed

lemma clean_latex_run:
  assumes "fst (resolve_workspace_path ROOT file w) = Inr abs_path"
    and "exists_path (files w) abs_path = Inr True"
    and "m = (case mode of None \<Rightarrow> mode_aux | Some m \<Rightarrow> m)"
    and "cmd = ''latexmk '' @ (if m = mode_all then ''-C'' else ''-c'')
               @ '' '' @ dquote @ name abs_path @ dquote"
  shows "clean_latex sh ROOT file mode w =
    (case run_command_async sh cmd (parent abs_path) w of
       (Inl e, w') \<Rightarrow> (Inl e, w')
     | (Inr log, w') \<Rightarrow>
         (Inr (''clean_latex finished.'' @ nl
               @ ''Mode: '' @ str_mode m @ nl
               @ ''Command: '' @ cmd @ nl @ nl
               @ ''--- Latexmk log ---'' @ nl @ log), w'))"
proof -
  have r: "resolve_workspace_path ROOT file w = (Inr abs_path, w)"
    using assms(1) by (rule resolve_workspace_path_eq)
  show ?thesis
    unfolding assms(3,4)
    by (simp add: clean_latex_def r assms(2) Let_def split: prod.splits sum.splits)
qed

lemma clean_latex_commands:
  assumes "fst (resolve_workspace_path ROOT file w) = Inr abs_path"
    and "exists_path (files w) abs_path = Inr True"
    and "m = (case mode of None \<Rightarrow> mode_aux | Some m \<Rightarrow> m)"
    and "cmd = ''latexmk '' @ (if m = mode_all then ''-C'' else ''-c'')
               @ '' '' @ dquote @ name abs_path @ dquote"
  shows "commands (snd (clean_latex sh ROOT file mode w))
           = commands w @ [(cmd, str_of (parent abs_path))]"
proof -
  note run = clean_latex_run [OF assms]
  have "snd (clean_latex sh ROOT file mode w)
          = snd (run_command_async sh cmd (parent abs_path) w)"
    by (simp only: run snd_case_run)
  then show ?thesis by (simp only: run_command_async_commands)
qed

lemma read_latex_log_found:
  assumes "fst (resolve_workspace_path ROOT file w) = Inr abs_path"
    and "log_path = joinpath (parent abs_path) (Path (stem abs_path @ ''.log''))"
    and "exists_path (files w) log_path = Inr True"
    and "read_text (files w) log_path = Inr content"
  shows "read_latex_log ROOT file w =
           (Inr (''Log path: '' @ str_of log_path @ nl @ nl @ content), w)"
proof -
  have r: "resolve_workspace_path ROOT file w = (Inr abs_path, w)"
    using assms(1) by (rule resolve_workspace_path_eq)
  show ?thesis
    using assms(3,4) unfolding read_latex_log_def Let_def r assms(2) by simp
qed

lemma read_latex_log_absent:
  assumes "fst (resolve_workspace_path ROOT file w) = Inr abs_path"
    and "log_path = joinpath (parent abs_path) (Path (stem abs_path @ ''.log''))"
    and "exists_path (files w) log_path = Inr False"
  shows "read_latex_log ROOT file w =
           (case path_guidance ROOT (files w) of
              Inl e \<Rightarrow> (Inl e, w)
            | Inr guidance \<Rightarrow>
                (Inr (''Log file not found: '' @ str_of log_path @ nl
                      @ ''You may need to run build_latex first.'' @ nl @ guidance), w))"
proof -
  have r: "resolve_workspace_path ROOT file w = (Inr abs_path, w)"
    using assms(1) by (rule resolve_workspace_path_eq)
  show ?thesis
    using assms(3) unfolding read_latex_log_def Let_def r assms(2) by simp
qed

lemma guard_result_normal:
  assumes "fst (resolve_workspace_path ROOT p w) = Inr q"
  shows "(root q = ''/'' \<or> root q = ''//'') \<and> (\<forall>x\<in>set (tail q). normal_name x)"
proof -
  from assms obtain a where "resolve (files w) a = Inr q"
    by (auto simp: resolve_workspace_path_def Let_def split: sum.splits)
  then show ?thesis by (rule resolve_normal)
qed

lemma stem_no_sep:
  assumes "\<forall>x\<in>set (tail q). normal_name x"
  shows "CHR ''/'' \<notin> set (stem q)"
proof -
  have "CHR ''/'' \<notin> set (name q)"
    using assms last_in_set [of "tail q"]
    by (auto simp: name_def normal_name_def plain_name_def)
  then show ?thesis
    by (auto simp: stem_def Let_def dest: in_set_takeD)
qed

text \<open>A file beside a resolved path has an absolute text.\<close>

lemma sibling_absolute:
  assumes "root q = ''/'' \<or> root q = ''//''" and "\<forall>x\<in>set (tail q). normal_name x"
    and "ext \<noteq> []" and "hd ext \<noteq> CHR ''/''"
  shows "prefix ''/'' (str_of (joinpath (parent q) (Path (stem q @ ext))))"
proof -
  have "\<not> prefix ''/'' (stem q @ ext)"
    using stem_no_sep [OF assms(2)] assms(3,4)
    by (cases "stem q"; cases ext) auto
  then have "\<not> is_absolute (Path (stem q @ ext))"
    by (simp add: is_absolute_Path)
  moreover have "root (parent q) = root q"
    by (simp add: parent_def)
  ultimately show ?thesis
    using assms(1) by (auto simp: joinpath_def str_of_def)
qed

subsection \<open>Evaluation on the demo workspace\<close>

lemma demo_guidance:
  "path_guidance demo_root demo_fs
     = Inr (guidance_text demo_root (''- /workspaces'' @ nl @ ''  - demo''))"
  by code_simp

lemma demo_guard_main:
  "resolve_workspace_path demo_root ''/workspaces/demo/main.tex'' demo_world
     = (Inr (PosixPath ''/'' [''workspaces'', ''demo'', ''main.tex'']), demo_world)"
  by (rule resolve_workspace_path_eq) code_simp

lemma demo_guard_missing:
  "resolve_workspace_path demo_root ''demo/other.tex'' demo_world
     = (Inr (PosixPath ''/'' [''workspaces'', ''demo'', ''other.tex'']), demo_world)"
  by (rule resolve_workspace_path_eq) code_simp

lemma demo_guard_root:
  "resolve_workspace_path demo_root ''/workspaces'' demo_world = (Inr demo_root, demo_world)"
  by (rule resolve_workspace_path_eq) code_simp

lemma demo_exists_main:
  "exists_path (files demo_world) (PosixPath ''/'' [''workspaces'', ''demo'', ''main.tex''])
     = Inr True"
  "exists_path (files demo_world) (PosixPath ''/'' [''workspaces'', ''demo'', ''other.tex''])
     = Inr False"
  "exists_path (files demo_world) demo_root = Inr True"
  by code_simp+

lemma demo_main_parts:
  "name (PosixPath ''/'' [''workspaces'', ''demo'', ''main.tex'']) = ''main.tex''"
  "str_of (parent (PosixPath ''/'' [''workspaces'', ''demo'', ''main.tex''])) = ''/workspaces/demo''"
  "joinpath (parent (PosixPath ''/'' [''workspaces'', ''demo'', ''main.tex'']))
     (Path (stem (PosixPath ''/'' [''workspaces'', ''demo'', ''main.tex'']) @ ''.pdf''))
   = PosixPath ''/'' [''workspaces'', ''demo'', ''main.pdf'']"
  "str_of (PosixPath ''/'' [''workspaces'', ''demo'', ''main.pdf'']) = ''/workspaces/demo/main.pdf''"
  by code_simp+

lemma demo_root_parts:
  "name demo_root = ''workspaces''"
  "str_of (parent demo_root) = ''/''"
  "str_of demo_root = ''/workspaces''"
  "joinpath (parent demo_root) (Path (stem demo_root @ ''.log'')) = PosixPath ''/'' [''workspaces.log'']"
  "str_of (PosixPath ''/'' [''workspaces.log'']) = ''/workspaces.log''"
  by code_simp+

lemma str_int_12: "str_int 12 = ''12''"
  by code_simp

lemma demo_sh_output:
  "utf8_valid [0x6F, 0x6B]"
  "map (\<lambda>b. char_of (unat b)) [0x6F, 0x6B :: 8 word] = ''ok''"
  "\<not> utf8_valid [0xFF]"
  by code_simp+

lemma demo_chars: "char_of (111::nat) = CHR ''o''" "char_of (107::nat) = CHR ''k''"
  by code_simp+

lemma demo_sh_main:
  "demo_sh cmd ''/workspaces/demo'' (files demo_world) =
     Inr (\<lparr>returncode = 12, stdout = [0x6F, 0x6B], stderr = []\<rparr>,
          demo_fs\<lparr>os_stat := (\<lambda>s. if s = ''/workspaces/demo/main.pdf'' then Inr False
                                   else os_stat demo_fs s)\<rparr>)"
  "idle_sh cmd ''/workspaces/demo'' (files demo_world) =
     Inr (\<lparr>returncode = 0, stdout = [], stderr = []\<rparr>, demo_fs)"
  by (simp_all add: demo_sh_def idle_sh_def demo_world_def)

lemma demo_pdf_after:
  "exists_path (demo_fs\<lparr>os_stat := (\<lambda>s. if s = ''/workspaces/demo/main.pdf'' then Inr False
                                         else os_stat demo_fs s)\<rparr>)
     (PosixPath ''/'' [''workspaces'', ''demo'', ''main.pdf'']) = Inr True"
  "exists_path demo_fs (PosixPath ''/'' [''workspaces'', ''demo'', ''main.pdf'']) = Inr False"
  by code_simp+

lemma demo_other_parts:
  "joinpath (parent (PosixPath ''/'' [''workspaces'', ''demo'', ''other.tex'']))
     (Path (stem (PosixPath ''/'' [''workspaces'', ''demo'', ''other.tex'']) @ ''.log''))
   = PosixPath ''/'' [''workspaces'', ''demo'', ''other.log'']"
  "str_of (PosixPath ''/'' [''workspaces'', ''demo'', ''other.log''])
   = ''/workspaces/demo/other.log''"
  "exists_path (files demo_world) (PosixPath ''/'' [''workspaces'', ''demo'', ''other.log''])
   = Inr False"
  by code_simp+

text \<open>
  A build in the second workspace: the source \<open>long_name\<close> exists and the command runs,
  but the name of the \<open>.pdf\<close> beside it has 257 characters, so \<^verbatim>\<open>exists()\<close> raises and
  the tool returns no report.
\<close>

lemma faulty_build_long_name:
  "fst (resolve_workspace_path demo_root (''/workspaces/'' @ long_name) faulty_world)
     = Inr (PosixPath ''/'' [''workspaces'', long_name])"
  "exists_path (files faulty_world) (PosixPath ''/'' [''workspaces'', long_name]) = Inr True"
  "commands (snd (build_latex idle_sh demo_root (''/workspaces/'' @ long_name) None faulty_world))
     = [(''latexmk -synctex=1 -interaction=nonstopmode -file-line-error -pdf ''
         @ dquote @ long_name @ dquote, ''/workspaces'')]"
  "fst (build_latex idle_sh demo_root (''/workspaces/'' @ long_name) None faulty_world)
     = Inl (OSError (OsError ENAMETOOLONG ''File name too long''
                       (''/workspaces/'' @ long_name @ ''.pdf'')))"
  by code_simp+

section \<open>The claims\<close>

text \<open>
  C1. The claim is that the guard raises the path-escape error for every input whose
  normalised absolute form is outside the workspace root, and returns that form for
  every input for which it is inside. With \<open>demo/loop.tex\<close> a symbolic link to itself,
  the normalised form of that input is \<open>/workspaces/demo/loop.tex\<close>, inside the root,
  and the guard does not return it: \<^verbatim>\<open>Path.resolve()\<close> raises \<^verbatim>\<open>RuntimeError\<close>.
\<close>

theorem resolve_workspace_path_contained_counterexample:
  "realpath (files faulty_world) ''/workspaces/demo/loop.tex'' = Inr ''/workspaces/demo/loop.tex''
   \<and> spec_within_root demo_root (Path ''/workspaces/demo/loop.tex'')
   \<and> fst (resolve_workspace_path demo_root ''demo/loop.tex'' faulty_world)
       = Inl (RuntimeError ''/workspaces/demo/loop.tex'')"
proof -
  have "realpath (files faulty_world) ''/workspaces/demo/loop.tex''
          = Inr ''/workspaces/demo/loop.tex''"
    by code_simp
  moreover have "spec_within_root demo_root (Path ''/workspaces/demo/loop.tex'')"
    by (simp add: spec_within_root_def demo_root_def Path_def splitroot_def)
  moreover have "fst (resolve_workspace_path demo_root ''demo/loop.tex'' faulty_world)
       = Inl (RuntimeError ''/workspaces/demo/loop.tex'')"
    by code_simp
  ultimately show ?thesis by simp
qed

text \<open>
  C1, as amended. Let \<^verbatim>\<open>Path.resolve()\<close> return \<open>q\<close> for the input \<open>p\<close> taken as it is
  when absolute and joined to the workspace root otherwise. When \<open>q\<close> is the root or a
  descendant of it, \<open>resolve_workspace_path\<close> returns \<open>q\<close>. When it is neither and the
  guidance text can be built, the guard raises the path-escape error, a \<^verbatim>\<open>ValueError\<close>
  that names \<open>q\<close>, the root and the guidance. In every case the world, that is the file
  system and the list of spawned commands, is left as it was. Containment goes by whole
  names: \<open>/workspaces/foo2\<close> is not within \<open>/workspaces/foo\<close>.
\<close>

theorem resolve_workspace_path_contained:
  assumes "resolve (files w)
             (if is_absolute (Path p) then Path p else joinpath ROOT (Path p)) = Inr q"
  shows "(\<not> spec_within_root ROOT q \<and> path_guidance ROOT (files w) = Inr guidance \<longrightarrow>
            resolve_workspace_path ROOT p w =
              (Inl (ValueError
                 (''Path '' @ str_of q @ '' is outside workspace root ''
                  @ str_of ROOT @ ''. '' @ guidance)), w))
       \<and> (spec_within_root ROOT q \<longrightarrow> resolve_workspace_path ROOT p w = (Inr q, w))
       \<and> snd (resolve_workspace_path ROOT p w) = w
       \<and> \<not> spec_within_root (Path ''/workspaces/foo'') (Path ''/workspaces/foo2'')"
proof -
  have "\<not> spec_within_root (Path ''/workspaces/foo'') (Path ''/workspaces/foo2'')"
    by (simp add: spec_within_root_def Path_def splitroot_def)
  then show ?thesis
    using resolve_workspace_path_cases [OF assms] resolve_workspace_path_world [of ROOT p w]
    by simp
qed

theorem resolve_workspace_path_contained_witness:
  "resolve (files demo_world)
     (if is_absolute (Path ''/workspaces/foo2'') then Path ''/workspaces/foo2''
      else joinpath (Path ''/workspaces/foo'') (Path ''/workspaces/foo2''))
     = Inr (PosixPath ''/'' [''workspaces'', ''foo2''])
   \<and> \<not> spec_within_root (Path ''/workspaces/foo'') (PosixPath ''/'' [''workspaces'', ''foo2''])
   \<and> path_guidance (Path ''/workspaces/foo'') (files demo_world)
       = Inr (guidance_text (Path ''/workspaces/foo'')
                ''(could not list /workspaces/foo: not a directory)'')
   \<and> resolve_workspace_path (Path ''/workspaces/foo'') ''/workspaces/foo2'' demo_world =
       (Inl (ValueError
          (''Path /workspaces/foo2 is outside workspace root /workspaces/foo. ''
           @ guidance_text (Path ''/workspaces/foo'')
               ''(could not list /workspaces/foo: not a directory)'')), demo_world)
   \<and> resolve (files demo_world)
       (if is_absolute (Path ''demo/main.tex'') then Path ''demo/main.tex''
        else joinpath demo_root (Path ''demo/main.tex''))
       = Inr (PosixPath ''/'' [''workspaces'', ''demo'', ''main.tex''])
   \<and> spec_within_root demo_root (PosixPath ''/'' [''workspaces'', ''demo'', ''main.tex''])
   \<and> resolve_workspace_path demo_root ''demo/main.tex'' demo_world =
       (Inr (PosixPath ''/'' [''workspaces'', ''demo'', ''main.tex'']), demo_world)"
proof -
  have out: "resolve (files demo_world)
     (if is_absolute (Path ''/workspaces/foo2'') then Path ''/workspaces/foo2''
      else joinpath (Path ''/workspaces/foo'') (Path ''/workspaces/foo2''))
     = Inr (PosixPath ''/'' [''workspaces'', ''foo2''])"
    by code_simp
  have inside: "resolve (files demo_world)
       (if is_absolute (Path ''demo/main.tex'') then Path ''demo/main.tex''
        else joinpath demo_root (Path ''demo/main.tex''))
       = Inr (PosixPath ''/'' [''workspaces'', ''demo'', ''main.tex''])"
    by code_simp
  have no: "\<not> spec_within_root (Path ''/workspaces/foo'') (PosixPath ''/'' [''workspaces'', ''foo2''])"
    by (simp add: spec_within_root_def Path_def splitroot_def)
  have yes: "spec_within_root demo_root (PosixPath ''/'' [''workspaces'', ''demo'', ''main.tex''])"
    by (simp add: spec_within_root_def demo_root_def)
  have g: "path_guidance (Path ''/workspaces/foo'') (files demo_world)
       = Inr (guidance_text (Path ''/workspaces/foo'')
                ''(could not list /workspaces/foo: not a directory)'')"
    by code_simp
  have str: "str_of (PosixPath ''/'' [''workspaces'', ''foo2'']) = ''/workspaces/foo2''"
            "str_of (Path ''/workspaces/foo'') = ''/workspaces/foo''"
    by code_simp+
  from resolve_workspace_path_contained [OF out, where guidance =
         "guidance_text (Path ''/workspaces/foo'')
            ''(could not list /workspaces/foo: not a directory)''"]
       resolve_workspace_path_contained [OF inside]
  show ?thesis
    using out inside no yes g str by simp
qed

text \<open>
  C2. The claim is that every path a tool reads and every working directory of a spawned
  command lies within the workspace root, and in particular the log path of
  \<open>read_latex_log\<close> for every input the guard accepts. The guard accepts the root itself,
  and the tools then work in its parent: with the root \<open>/workspaces\<close> and the input
  \<open>/workspaces\<close>, \<open>read_latex_log\<close> reads and returns \<open>/workspaces.log\<close>, and
  \<open>build_latex\<close> runs its command in the directory \<open>/\<close>; neither is within the root.
\<close>

theorem read_latex_log_outside_root:
  "WORKSPACE_ROOT demo_fs None = Inr demo_root
   \<and> fst (resolve_workspace_path demo_root ''/workspaces'' demo_world) = Inr demo_root
   \<and> read_latex_log demo_root ''/workspaces'' demo_world
       = (Inr (''Log path: /workspaces.log'' @ nl @ nl @ ''outside''), demo_world)
   \<and> \<not> spec_within_root demo_root (PosixPath ''/'' [''workspaces.log''])
   \<and> commands (snd (build_latex demo_sh demo_root ''/workspaces'' None demo_world))
       = [(''latexmk -synctex=1 -interaction=nonstopmode -file-line-error -pdf ''
           @ dquote @ ''workspaces'' @ dquote, ''/'')]
   \<and> \<not> spec_within_root demo_root (Path ''/'')"
proof -
  have w: "WORKSPACE_ROOT demo_fs None = Inr demo_root"
    by code_simp
  have r: "fst (resolve_workspace_path demo_root ''/workspaces'' demo_world) = Inr demo_root"
    by (simp add: demo_guard_root)
  have l: "read_latex_log demo_root ''/workspaces'' demo_world
       = (Inr (''Log path: /workspaces.log'' @ nl @ nl @ ''outside''), demo_world)"
  proof -
    have e: "exists_path (files demo_world) (PosixPath ''/'' [''workspaces.log'']) = Inr True"
      by code_simp
    have t: "read_text (files demo_world) (PosixPath ''/'' [''workspaces.log'']) = Inr ''outside''"
      by code_simp
    from read_latex_log_found [OF r demo_root_parts(4) [symmetric] e t]
    show ?thesis by (simp add: demo_root_parts)
  qed
  have n: "\<not> spec_within_root demo_root (PosixPath ''/'' [''workspaces.log''])"
          "\<not> spec_within_root demo_root (Path ''/'')"
    by (simp_all add: spec_within_root_def demo_root_def Path_def splitroot_def)
  have c: "commands demo_world = []" by (simp add: demo_world_def)
  have b: "commands (snd (build_latex demo_sh demo_root ''/workspaces'' None demo_world))
       = [(''latexmk -synctex=1 -interaction=nonstopmode -file-line-error -pdf ''
           @ dquote @ ''workspaces'' @ dquote, ''/'')]"
    using build_latex_spawns [OF r demo_exists_main(3) refl refl, of demo_sh None]
    by (simp add: demo_root_parts c)
  from w r l n b show ?thesis by simp
qed

text \<open>
  C3. The claim is that the executor decodes the output of the child process
  permissively and never raises a decoding error. \<open>run_command_async\<close> calls
  \<^verbatim>\<open>decode()\<close> with its default error handler, which is strict: on a child process that
  prints the single byte \<open>0xFF\<close> the executor raises \<^verbatim>\<open>UnicodeDecodeError\<close>, and so does
  \<open>build_latex\<close>.
\<close>

theorem run_command_async_strict_decoding:
  "run_command_async latin_sh ''latexmk'' demo_root demo_world
     = (Inl UnicodeDecodeError, demo_world\<lparr>commands := [(''latexmk'', ''/workspaces'')]\<rparr>)
   \<and> fst (build_latex latin_sh demo_root ''/workspaces/demo/main.tex'' None demo_world)
     = Inl UnicodeDecodeError"
proof -
  have a: "run_command_async latin_sh cmd cwd demo_world
           = (Inl UnicodeDecodeError, demo_world\<lparr>commands := [(cmd, str_of cwd)]\<rparr>)"
    for cmd cwd
    by (simp add: run_command_async_def latin_sh_def decode_def demo_sh_output demo_world_def)
  have r: "fst (resolve_workspace_path demo_root ''/workspaces/demo/main.tex'' demo_world)
             = Inr (PosixPath ''/'' [''workspaces'', ''demo'', ''main.tex''])"
    by (simp add: demo_guard_main)
  have "fst (build_latex latin_sh demo_root ''/workspaces/demo/main.tex'' None demo_world)
     = Inl UnicodeDecodeError"
    by (simp only: build_latex_run [OF r demo_exists_main(1) refl refl refl] a prod.case sum.case fst_conv)
  with a [of "''latexmk''" demo_root] show ?thesis by (simp add: demo_root_parts)
qed

text \<open>
  C4. The claim is that \<open>build_latex\<close> returns a report beginning with \<open>ERROR\<close>
  whenever path resolution fails or the resolved file does not exist. Only a
  \<^verbatim>\<open>ValueError\<close> of the guard is turned into a report. On \<open>demo/loop.tex\<close>, a symbolic link
  to itself, resolution fails with \<^verbatim>\<open>RuntimeError\<close> and the tool raises it; on a name of
  300 characters, which no file can bear, \<^verbatim>\<open>exists()\<close> raises \<^verbatim>\<open>OSError\<close> and the tool
  raises it.
\<close>

theorem build_latex_error_report_counterexample:
  "fst (resolve_workspace_path demo_root ''demo/loop.tex'' faulty_world)
     = Inl (RuntimeError ''/workspaces/demo/loop.tex'')
   \<and> fst (build_latex demo_sh demo_root ''demo/loop.tex'' None faulty_world)
     = Inl (RuntimeError ''/workspaces/demo/loop.tex'')
   \<and> fst (resolve_workspace_path demo_root (''/workspaces/'' @ replicate 300 (CHR ''a''))
            faulty_world)
     = Inr (PosixPath ''/'' [''workspaces'', replicate 300 (CHR ''a'')])
   \<and> fst (build_latex demo_sh demo_root (''/workspaces/'' @ replicate 300 (CHR ''a'')) None
            faulty_world)
     = Inl (OSError (OsError ENAMETOOLONG ''File name too long''
                       (''/workspaces/'' @ replicate 300 (CHR ''a''))))"
  by code_simp

text \<open>
  C4, as amended. When the guard raises a \<^verbatim>\<open>ValueError\<close>, \<open>build_latex\<close> returns the
  report \<open>ERROR: \<close> followed by its message; when the guard returns a path for which
  \<^verbatim>\<open>exists()\<close> answers no and the guidance text can be built, it returns the report
  \<open>ERROR: File not found: \<close> with the path and the guidance. Whenever the guard raises
  or \<^verbatim>\<open>exists()\<close> does not answer yes, the tool returns the world it was given, so no
  command was handed to the shell. With the root \<open>/workspaces\<close> and the input
  \<open>../etc/passwd\<close>, resolved to \<open>/etc/passwd\<close>, the report contains
  \<open>outside workspace root\<close> when the guidance text can be built.
\<close>

theorem build_latex_error_report:
  "(fst (resolve_workspace_path ROOT file w) = Inl (ValueError msg) \<longrightarrow>
      build_latex sh ROOT file engine w = (Inr (''ERROR'' @ '': '' @ msg), w))
   \<and> (fst (resolve_workspace_path ROOT file w) = Inr abs_path
       \<and> exists_path (files w) abs_path = Inr False
       \<and> path_guidance ROOT (files w) = Inr guidance \<longrightarrow>
      build_latex sh ROOT file engine w =
        (Inr (''ERROR'' @ '': File not found: '' @ str_of abs_path @ nl @ guidance), w))
   \<and> ((\<forall>p. fst (resolve_workspace_path ROOT file w) = Inr p \<longrightarrow>
            exists_path (files w) p \<noteq> Inr True) \<longrightarrow>
      snd (build_latex sh ROOT file engine w) = w)
   \<and> (resolve (files w) (PosixPath ''/'' [''workspaces'', ''..'', ''etc'', ''passwd''])
         = Inr (PosixPath ''/'' [''etc'', ''passwd''])
       \<and> path_guidance (PosixPath ''/'' [''workspaces'']) (files w) = Inr guidance \<longrightarrow>
      (\<exists>a b. build_latex sh (PosixPath ''/'' [''workspaces'']) ''../etc/passwd'' engine w
               = (Inr (''ERROR: '' @ a @ ''outside workspace root'' @ b), w)))"
proof (intro conjI impI)
  assume "fst (resolve_workspace_path ROOT file w) = Inl (ValueError msg)"
  from build_latex_reject [OF this, of sh engine]
  show "build_latex sh ROOT file engine w = (Inr (''ERROR'' @ '': '' @ msg), w)" by simp
next
  assume a: "fst (resolve_workspace_path ROOT file w) = Inr abs_path
       \<and> exists_path (files w) abs_path = Inr False
       \<and> path_guidance ROOT (files w) = Inr guidance"
  then have "fst (resolve_workspace_path ROOT file w) = Inr abs_path"
    and "exists_path (files w) abs_path = Inr False" by simp_all
  from build_latex_not_found [OF this, of sh engine] a
  show "build_latex sh ROOT file engine w =
        (Inr (''ERROR'' @ '': File not found: '' @ str_of abs_path @ nl @ guidance), w)"
    by simp
next
  assume a: "\<forall>p. fst (resolve_workspace_path ROOT file w) = Inr p \<longrightarrow>
            exists_path (files w) p \<noteq> Inr True"
  show "snd (build_latex sh ROOT file engine w) = w"
  proof (cases "fst (resolve_workspace_path ROOT file w)")
    case (Inl e)
    show ?thesis
    proof (cases "\<exists>msg. e = ValueError msg")
      case True
      then obtain msg where "e = ValueError msg" by blast
      with Inl build_latex_reject [of ROOT "file" w msg sh engine] show ?thesis by simp
    next
      case False
      with Inl build_latex_raise [of ROOT "file" w e sh engine] show ?thesis by simp
    qed
  next
    case (Inr p)
    with a have n: "exists_path (files w) p \<noteq> Inr True" by simp
    show ?thesis
    proof (cases "exists_path (files w) p")
      case (Inl e)
      from build_latex_stat_raise [OF Inr Inl, of sh engine] show ?thesis by simp
    next
      case r: (Inr b)
      with n have "exists_path (files w) p = Inr False" by (cases b) simp_all
      from build_latex_not_found [OF Inr this, of sh engine] show ?thesis
        by (simp split: sum.splits)
    qed
  qed
next
  let ?R = "PosixPath ''/'' [''workspaces'']"
  assume a: "resolve (files w) (PosixPath ''/'' [''workspaces'', ''..'', ''etc'', ''passwd''])
         = Inr (PosixPath ''/'' [''etc'', ''passwd''])
       \<and> path_guidance ?R (files w) = Inr guidance"
  have "(if is_absolute (Path ''../etc/passwd'') then Path ''../etc/passwd''
         else joinpath ?R (Path ''../etc/passwd''))
        = PosixPath ''/'' [''workspaces'', ''..'', ''etc'', ''passwd'']"
    by (simp add: Path_def splitroot_def is_absolute_def joinpath_def)
  with a have q: "resolve (files w)
             (if is_absolute (Path ''../etc/passwd'') then Path ''../etc/passwd''
              else joinpath ?R (Path ''../etc/passwd''))
           = Inr (PosixPath ''/'' [''etc'', ''passwd''])"
    by simp
  have "\<not> spec_within_root ?R (PosixPath ''/'' [''etc'', ''passwd''])"
    by (simp add: spec_within_root_def)
  with resolve_workspace_path_cases [OF q] a
  have "fst (resolve_workspace_path ?R ''../etc/passwd'' w) =
          Inl (ValueError
             (''Path '' @ str_of (PosixPath ''/'' [''etc'', ''passwd'']) @ '' is outside workspace root ''
              @ str_of ?R @ ''. '' @ guidance))"
    by simp
  from build_latex_reject [OF this, of sh engine]
  have "build_latex sh ?R ''../etc/passwd'' engine w =
          (Inr (''ERROR: '' @ (''Path '' @ str_of (PosixPath ''/'' [''etc'', ''passwd'']) @ '' is '')
                @ ''outside workspace root''
                @ ('' '' @ str_of ?R @ ''. '' @ guidance)), w)"
    by simp
  then show "\<exists>a b. build_latex sh ?R ''../etc/passwd'' engine w
               = (Inr (''ERROR: '' @ a @ ''outside workspace root'' @ b), w)"
    by blast
qed

theorem build_latex_error_report_witness:
  "fst (resolve_workspace_path demo_root ''../etc/passwd'' demo_world)
     = Inl (ValueError (''Path /etc/passwd is outside workspace root /workspaces. ''
              @ guidance_text demo_root (''- /workspaces'' @ nl @ ''  - demo'')))
   \<and> build_latex demo_sh demo_root ''../etc/passwd'' None demo_world
     = (Inr (''ERROR: Path /etc/passwd is outside workspace root /workspaces. ''
              @ guidance_text demo_root (''- /workspaces'' @ nl @ ''  - demo'')), demo_world)
   \<and> fst (resolve_workspace_path demo_root ''demo/other.tex'' demo_world)
     = Inr (PosixPath ''/'' [''workspaces'', ''demo'', ''other.tex''])
   \<and> exists_path (files demo_world) (PosixPath ''/'' [''workspaces'', ''demo'', ''other.tex''])
     = Inr False
   \<and> build_latex demo_sh demo_root ''demo/other.tex'' None demo_world
     = (Inr (''ERROR: File not found: /workspaces/demo/other.tex'' @ nl
              @ guidance_text demo_root (''- /workspaces'' @ nl @ ''  - demo'')), demo_world)
   \<and> snd (build_latex demo_sh demo_root ''demo/other.tex'' None demo_world) = demo_world
   \<and> resolve (files demo_world) (PosixPath ''/'' [''workspaces'', ''..'', ''etc'', ''passwd''])
     = Inr (PosixPath ''/'' [''etc'', ''passwd''])
   \<and> (\<exists>a b. build_latex demo_sh (PosixPath ''/'' [''workspaces'']) ''../etc/passwd'' None demo_world
             = (Inr (''ERROR: '' @ a @ ''outside workspace root'' @ b), demo_world))"
proof -
  let ?g = "guidance_text demo_root (''- /workspaces'' @ nl @ ''  - demo'')"
  have esc: "fst (resolve_workspace_path demo_root ''../etc/passwd'' demo_world)
     = Inl (ValueError (''Path /etc/passwd is outside workspace root /workspaces. '' @ ?g))"
    by code_simp
  have mis: "fst (resolve_workspace_path demo_root ''demo/other.tex'' demo_world)
     = Inr (PosixPath ''/'' [''workspaces'', ''demo'', ''other.tex''])"
    by (simp add: demo_guard_missing)
  note ex = demo_exists_main(2)
  have g: "path_guidance demo_root (files demo_world) = Inr ?g"
          "path_guidance (PosixPath ''/'' [''workspaces'']) (files demo_world) = Inr ?g"
    using demo_guidance by (simp_all add: demo_world_def demo_root_def)
  have q: "resolve (files demo_world) (PosixPath ''/'' [''workspaces'', ''..'', ''etc'', ''passwd''])
     = Inr (PosixPath ''/'' [''etc'', ''passwd''])"
    by code_simp
  have s: "str_of (PosixPath ''/'' [''workspaces'', ''demo'', ''other.tex''])
           = ''/workspaces/demo/other.tex''"
    by code_simp
  have n: "\<forall>p. fst (resolve_workspace_path demo_root ''demo/other.tex'' demo_world) = Inr p \<longrightarrow>
               exists_path (files demo_world) p \<noteq> Inr True"
    using mis ex by simp
  note a = build_latex_error_report
    [of demo_root "''../etc/passwd''" demo_world
        "''Path /etc/passwd is outside workspace root /workspaces. '' @ ?g"
        demo_sh None "PosixPath ''/'' []" ?g]
  note b = build_latex_error_report
    [of demo_root "''demo/other.tex''" demo_world "[]" demo_sh None
        "PosixPath ''/'' [''workspaces'', ''demo'', ''other.tex'']" ?g]
  from a esc have 1: "build_latex demo_sh demo_root ''../etc/passwd'' None demo_world
     = (Inr (''ERROR: Path /etc/passwd is outside workspace root /workspaces. '' @ ?g), demo_world)"
    by simp
  from b mis ex g(1) s have 2: "build_latex demo_sh demo_root ''demo/other.tex'' None demo_world
     = (Inr (''ERROR: File not found: /workspaces/demo/other.tex'' @ nl @ ?g), demo_world)"
    by simp
  from b n have 3: "snd (build_latex demo_sh demo_root ''demo/other.tex'' None demo_world) = demo_world"
    by blast
  from b q g(2) have 4: "\<exists>a b. build_latex demo_sh (PosixPath ''/'' [''workspaces''])
             ''../etc/passwd'' None demo_world
             = (Inr (''ERROR: '' @ a @ ''outside workspace root'' @ b), demo_world)"
    by blast
  from esc 1 mis ex 2 3 q 4 show ?thesis by simp
qed

text \<open>
  C5. For an input that resolves to an existing file, \<open>build_latex\<close> hands the shell exactly
  one command, \<open>latexmk -synctex=1 -interaction=nonstopmode -file-line-error\<close> followed by
  the engine flag and the file name in double quotes, with the directory of the resolved
  file as working directory. The flag is \<open>-pdf\<close> for \<open>pdflatex\<close> and for a call without
  the argument, \<open>-pdfxe\<close> for \<open>xelatex\<close>, \<open>-pdflua\<close> for \<open>lualatex\<close>. The result of the
  tool depends on the shell only through its answer to this command in this directory.
\<close>

theorem build_latex_command:
  assumes "fst (resolve_workspace_path ROOT file w) = Inr abs_path"
    and "exists_path (files w) abs_path = Inr True"
    and "flag = (case engine of None \<Rightarrow> ''-pdf'' | Some pdflatex \<Rightarrow> ''-pdf''
                 | Some xelatex \<Rightarrow> ''-pdfxe'' | Some lualatex \<Rightarrow> ''-pdflua'')"
    and "cmd = ''latexmk -synctex=1 -interaction=nonstopmode -file-line-error '' @ flag
               @ '' '' @ dquote @ name abs_path @ dquote"
  shows "commands (snd (build_latex sh ROOT file engine w))
           = commands w @ [(cmd, str_of (parent abs_path))]
       \<and> (sh cmd (str_of (parent abs_path)) (files w) = sh' cmd (str_of (parent abs_path)) (files w)
            \<longrightarrow> build_latex sh ROOT file engine w = build_latex sh' ROOT file engine w)"
proof -
  note run = build_latex_run [OF assms refl]
  have "snd (build_latex sh ROOT file engine w)
          = snd (run_command_async sh cmd (parent abs_path) w)"
    by (simp only: run snd_case_build)
  then have c: "commands (snd (build_latex sh ROOT file engine w))
                  = commands w @ [(cmd, str_of (parent abs_path))]"
    by (simp only: run_command_async_commands)
  have "build_latex sh ROOT file engine w = build_latex sh' ROOT file engine w"
    if "sh cmd (str_of (parent abs_path)) (files w) = sh' cmd (str_of (parent abs_path)) (files w)"
    using run_command_async_cong [of sh cmd "parent abs_path" w sh', OF that]
    by (simp only: run)
  with c show ?thesis by blast
qed

theorem build_latex_command_witness:
  "fst (resolve_workspace_path demo_root ''/workspaces/demo/main.tex'' demo_world)
     = Inr (PosixPath ''/'' [''workspaces'', ''demo'', ''main.tex''])
   \<and> exists_path (files demo_world) (PosixPath ''/'' [''workspaces'', ''demo'', ''main.tex''])
       = Inr True
   \<and> commands (snd (build_latex demo_sh demo_root ''/workspaces/demo/main.tex'' None demo_world))
       = [(''latexmk -synctex=1 -interaction=nonstopmode -file-line-error -pdf ''
           @ dquote @ ''main.tex'' @ dquote, ''/workspaces/demo'')]
   \<and> commands (snd (build_latex demo_sh demo_root ''/workspaces/demo/main.tex'' (Some lualatex) demo_world))
       = [(''latexmk -synctex=1 -interaction=nonstopmode -file-line-error -pdflua ''
           @ dquote @ ''main.tex'' @ dquote, ''/workspaces/demo'')]"
proof -
  have r: "fst (resolve_workspace_path demo_root ''/workspaces/demo/main.tex'' demo_world)
             = Inr (PosixPath ''/'' [''workspaces'', ''demo'', ''main.tex''])"
    by (simp add: demo_guard_main)
  note e = demo_exists_main(1)
  have c: "commands demo_world = []" by (simp add: demo_world_def)
  from build_latex_command [OF r e refl refl, of demo_sh None demo_sh]
       build_latex_command [OF r e refl refl, of demo_sh "Some lualatex" demo_sh]
  show ?thesis using r e c by (simp add: demo_main_parts)
qed

text \<open>
  C6. For a call of \<open>build_latex\<close> that reaches execution and returns a report (the
  command runs to its end, its output decodes, and \<^verbatim>\<open>exists()\<close> answers for the \<open>.pdf\<close>
  beside the source), the line of the report between the command line and the transcript
  is \<open>PDF exists:\<close> followed by the status: the path of the \<open>.pdf\<close> when \<^verbatim>\<open>exists()\<close>
  answers yes in the file system the command leaves, and \<open>NO\<close> when it answers no. The
  status is the path if and only if the file exists, and the exit code of the command
  appears in the transcript only.
\<close>

theorem build_latex_pdf_status:
  assumes "fst (resolve_workspace_path ROOT file w) = Inr abs_path"
    and "exists_path (files w) abs_path = Inr True"
    and "flag = (case engine of None \<Rightarrow> ''-pdf'' | Some pdflatex \<Rightarrow> ''-pdf''
                 | Some xelatex \<Rightarrow> ''-pdfxe'' | Some lualatex \<Rightarrow> ''-pdflua'')"
    and "cmd = ''latexmk -synctex=1 -interaction=nonstopmode -file-line-error '' @ flag
               @ '' '' @ dquote @ name abs_path @ dquote"
    and "pdf_path = joinpath (parent abs_path) (Path (stem abs_path @ ''.pdf''))"
    and "sh cmd (str_of (parent abs_path)) (files w) = Inr (proc, fs')"
    and "utf8_valid (stdout proc)" and "utf8_valid (stderr proc)"
    and "log = ''> '' @ cmd @ nl @ nl
               @ map (\<lambda>b. char_of (unat b)) (stdout proc)
               @ map (\<lambda>b. char_of (unat b)) (stderr proc)
               @ (if returncode proc \<noteq> 0
                  then nl @ nl @ ''[latex-mcp] Command exited with code ''
                       @ str_int (returncode proc) @ nl
                  else [])"
    and "exists_path fs' pdf_path = Inr pdf_exists"
    and "status = (if pdf_exists then str_of pdf_path else ''NO'')"
  shows "build_latex sh ROOT file engine w =
           (Inr (''build_latex finished.'' @ nl @ nl
                 @ ''Working directory: '' @ str_of (parent abs_path) @ nl
                 @ ''Command: '' @ cmd @ nl
                 @ ''PDF exists: '' @ status @ nl @ nl
                 @ ''--- Latexmk log ---'' @ nl @ log),
            w\<lparr>commands := commands w @ [(cmd, str_of (parent abs_path))], files := fs'\<rparr>)
       \<and> (status = str_of pdf_path \<longleftrightarrow> pdf_exists)
       \<and> (status = ''NO'' \<longleftrightarrow> \<not> pdf_exists)"
proof -
  note run = build_latex_run [OF assms(1-5)]
  note ok = run_command_async_ok [of sh cmd "parent abs_path" w proc fs', OF assms(6-8),
                                  folded assms(9)]
  have f: "files (w\<lparr>commands := commands w @ [(cmd, str_of (parent abs_path))],
                        files := fs'\<rparr>) = fs'"
    by simp
  have report: "build_latex sh ROOT file engine w =
           (Inr (''build_latex finished.'' @ nl @ nl
                 @ ''Working directory: '' @ str_of (parent abs_path) @ nl
                 @ ''Command: '' @ cmd @ nl
                 @ ''PDF exists: '' @ status @ nl @ nl
                 @ ''--- Latexmk log ---'' @ nl @ log),
            w\<lparr>commands := commands w @ [(cmd, str_of (parent abs_path))], files := fs'\<rparr>)"
    by (simp only: run ok prod.case sum.case f assms(10) assms(11))
  from guard_result_normal [OF assms(1)]
  have "prefix ''/'' (str_of pdf_path)"
    unfolding assms(5) by (intro sibling_absolute) simp_all
  then have "str_of pdf_path \<noteq> ''NO''" by auto
  with report assms(11) show ?thesis by simp
qed

theorem build_latex_pdf_status_witness:
  "fst (build_latex demo_sh demo_root ''/workspaces/demo/main.tex'' None demo_world) =
     Inr (''build_latex finished.'' @ nl @ nl
          @ ''Working directory: /workspaces/demo'' @ nl
          @ ''Command: latexmk -synctex=1 -interaction=nonstopmode -file-line-error -pdf ''
          @ dquote @ ''main.tex'' @ dquote @ nl
          @ ''PDF exists: /workspaces/demo/main.pdf'' @ nl @ nl
          @ ''--- Latexmk log ---'' @ nl
          @ ''> latexmk -synctex=1 -interaction=nonstopmode -file-line-error -pdf ''
          @ dquote @ ''main.tex'' @ dquote @ nl @ nl @ ''ok'' @ nl @ nl
          @ ''[latex-mcp] Command exited with code 12'' @ nl)
   \<and> fst (build_latex idle_sh demo_root ''/workspaces/demo/main.tex'' None demo_world) =
     Inr (''build_latex finished.'' @ nl @ nl
          @ ''Working directory: /workspaces/demo'' @ nl
          @ ''Command: latexmk -synctex=1 -interaction=nonstopmode -file-line-error -pdf ''
          @ dquote @ ''main.tex'' @ dquote @ nl
          @ ''PDF exists: NO'' @ nl @ nl
          @ ''--- Latexmk log ---'' @ nl
          @ ''> latexmk -synctex=1 -interaction=nonstopmode -file-line-error -pdf ''
          @ dquote @ ''main.tex'' @ dquote @ nl @ nl)"
proof -
  have r: "fst (resolve_workspace_path demo_root ''/workspaces/demo/main.tex'' demo_world)
             = Inr (PosixPath ''/'' [''workspaces'', ''demo'', ''main.tex''])"
    by (simp add: demo_guard_main)
  note e = demo_exists_main(1)
  have v: "utf8_valid (stdout \<lparr>returncode = 12, stdout = [0x6F, 0x6B], stderr = []\<rparr>)"
          "utf8_valid (stderr \<lparr>returncode = 12, stdout = [0x6F, 0x6B], stderr = []\<rparr>)"
          "utf8_valid (stdout \<lparr>returncode = 0, stdout = [], stderr = []\<rparr>)"
          "utf8_valid (stderr \<lparr>returncode = 0, stdout = [], stderr = []\<rparr>)"
    by (simp_all add: demo_sh_output)
  note busy = build_latex_pdf_status
    [where sh = demo_sh and engine = None, OF r e refl refl refl, unfolded demo_main_parts,
     OF demo_sh_main(1) v(1,2) refl demo_pdf_after(1) refl]
  note idle = build_latex_pdf_status
    [where sh = idle_sh and engine = None, OF r e refl refl refl, unfolded demo_main_parts,
     OF demo_sh_main(2) v(3,4) refl demo_pdf_after(2) refl]
  show ?thesis
    using busy idle
    by (simp add: demo_main_parts demo_chars str_int_12)
qed

text \<open>
  C7. For an input that resolves to an existing file, \<open>clean_latex\<close> with the mode \<open>all\<close>
  hands the shell the command with the flag \<open>-C\<close>; with the mode \<open>aux\<close>, and with the
  argument left out, the command with the flag \<open>-c\<close>. The two modes never give the same
  command.
\<close>

theorem clean_latex_flag:
  assumes "fst (resolve_workspace_path ROOT file w) = Inr abs_path"
    and "exists_path (files w) abs_path = Inr True"
  shows "commands (snd (clean_latex sh ROOT file (Some mode_all) w))
           = commands w @ [(''latexmk -C '' @ dquote @ name abs_path @ dquote,
                            str_of (parent abs_path))]
       \<and> commands (snd (clean_latex sh ROOT file (Some mode_aux) w))
           = commands w @ [(''latexmk -c '' @ dquote @ name abs_path @ dquote,
                            str_of (parent abs_path))]
       \<and> commands (snd (clean_latex sh ROOT file None w))
           = commands w @ [(''latexmk -c '' @ dquote @ name abs_path @ dquote,
                            str_of (parent abs_path))]
       \<and> commands (snd (clean_latex sh ROOT file (Some mode_all) w))
           \<noteq> commands (snd (clean_latex sh ROOT file (Some mode_aux) w))"
proof -
  have a: "commands (snd (clean_latex sh ROOT file (Some mode_all) w))
           = commands w @ [(''latexmk -C '' @ dquote @ name abs_path @ dquote,
                            str_of (parent abs_path))]"
    using clean_latex_commands [OF assms refl refl, of sh "Some mode_all"] by simp
  have b: "commands (snd (clean_latex sh ROOT file (Some mode_aux) w))
           = commands w @ [(''latexmk -c '' @ dquote @ name abs_path @ dquote,
                            str_of (parent abs_path))]"
    using clean_latex_commands [OF assms refl refl, of sh "Some mode_aux"] by simp
  have c: "commands (snd (clean_latex sh ROOT file None w))
           = commands w @ [(''latexmk -c '' @ dquote @ name abs_path @ dquote,
                            str_of (parent abs_path))]"
    using clean_latex_commands [OF assms refl refl, of sh None] by simp
  from a b c show ?thesis by simp
qed

theorem clean_latex_flag_witness:
  "fst (resolve_workspace_path demo_root ''/workspaces/demo/main.tex'' demo_world)
     = Inr (PosixPath ''/'' [''workspaces'', ''demo'', ''main.tex''])
   \<and> exists_path (files demo_world) (PosixPath ''/'' [''workspaces'', ''demo'', ''main.tex''])
       = Inr True
   \<and> commands (snd (clean_latex demo_sh demo_root ''/workspaces/demo/main.tex''
                       (Some mode_all) demo_world))
       = [(''latexmk -C '' @ dquote @ ''main.tex'' @ dquote, ''/workspaces/demo'')]
   \<and> commands (snd (clean_latex demo_sh demo_root ''/workspaces/demo/main.tex''
                       None demo_world))
       = [(''latexmk -c '' @ dquote @ ''main.tex'' @ dquote, ''/workspaces/demo'')]"
proof -
  have r: "fst (resolve_workspace_path demo_root ''/workspaces/demo/main.tex'' demo_world)
             = Inr (PosixPath ''/'' [''workspaces'', ''demo'', ''main.tex''])"
    by (simp add: demo_guard_main)
  note e = demo_exists_main(1)
  have c: "commands demo_world = []" by (simp add: demo_world_def)
  from clean_latex_flag [OF r e, of demo_sh]
  show ?thesis using r e c by (simp add: demo_main_parts)
qed

text \<open>
  C8. The claim is that \<open>read_latex_log\<close> returns the \<open>Log file not found\<close> report,
  without raising, for every path accepted by the guard for which no \<open>.log\<close> sibling
  exists. The guard accepts the name of 255 letters \<open>a\<close> in the workspace root; its
  \<open>.log\<close> sibling has a name of 259 characters, which no file can bear, so the system
  call behind \<^verbatim>\<open>exists()\<close> fails with \<^verbatim>\<open>ENAMETOOLONG\<close>, and \<open>read_latex_log\<close> raises that
  \<^verbatim>\<open>OSError\<close>.
\<close>

theorem read_latex_log_missing_counterexample:
  "fst (resolve_workspace_path demo_root (''/workspaces/'' @ replicate 255 (CHR ''a''))
          faulty_world)
     = Inr (PosixPath ''/'' [''workspaces'', replicate 255 (CHR ''a'')])
   \<and> os_stat (files faulty_world) (''/workspaces/'' @ replicate 255 (CHR ''a'') @ ''.log'')
     = Inl (OsError ENAMETOOLONG ''File name too long''
              (''/workspaces/'' @ replicate 255 (CHR ''a'') @ ''.log''))
   \<and> fst (read_latex_log demo_root (''/workspaces/'' @ replicate 255 (CHR ''a'')) faulty_world)
     = Inl (OSError (OsError ENAMETOOLONG ''File name too long''
                       (''/workspaces/'' @ replicate 255 (CHR ''a'') @ ''.log'')))"
  by code_simp

text \<open>
  C8, as amended. When the guard accepts the input, \<^verbatim>\<open>exists()\<close> answers no for the log
  path (the resolved path with its last suffix replaced by \<open>.log\<close>, in the same
  directory) and the guidance text can be built, \<open>read_latex_log\<close> does not raise: it
  returns the report that names the log path, says
  \<open>You may need to run build_latex first.\<close> and ends with the guidance text. Whether the
  \<open>.tex\<close> file exists is not asked.
\<close>

theorem read_latex_log_missing:
  assumes "fst (resolve_workspace_path ROOT file w) = Inr abs_path"
    and "log_path = joinpath (parent abs_path) (Path (stem abs_path @ ''.log''))"
    and "exists_path (files w) log_path = Inr False"
    and "path_guidance ROOT (files w) = Inr guidance"
  shows "read_latex_log ROOT file w =
           (Inr (''Log file not found: '' @ str_of log_path @ nl
                 @ ''You may need to run build_latex first.'' @ nl
                 @ guidance), w)"
  using read_latex_log_absent [OF assms(1-3)] assms(4) by simp

theorem read_latex_log_missing_witness:
  "fst (resolve_workspace_path demo_root ''demo/other.tex'' demo_world)
     = Inr (PosixPath ''/'' [''workspaces'', ''demo'', ''other.tex''])
   \<and> exists_path (files demo_world) (PosixPath ''/'' [''workspaces'', ''demo'', ''other.tex''])
     = Inr False
   \<and> exists_path (files demo_world) (PosixPath ''/'' [''workspaces'', ''demo'', ''other.log''])
     = Inr False
   \<and> path_guidance demo_root (files demo_world)
     = Inr (guidance_text demo_root (''- /workspaces'' @ nl @ ''  - demo''))
   \<and> read_latex_log demo_root ''demo/other.tex'' demo_world =
       (Inr (''Log file not found: /workspaces/demo/other.log'' @ nl
             @ ''You may need to run build_latex first.'' @ nl
             @ guidance_text demo_root (''- /workspaces'' @ nl @ ''  - demo'')), demo_world)"
proof -
  have r: "fst (resolve_workspace_path demo_root ''demo/other.tex'' demo_world)
             = Inr (PosixPath ''/'' [''workspaces'', ''demo'', ''other.tex''])"
    by (simp add: demo_guard_missing)
  note l = demo_other_parts(1) [symmetric]
  note n = demo_other_parts(3)
  have g: "path_guidance demo_root (files demo_world)
     = Inr (guidance_text demo_root (''- /workspaces'' @ nl @ ''  - demo''))"
    using demo_guidance by (simp add: demo_world_def)
  from read_latex_log_missing [OF r l n g]
  show ?thesis using r n g demo_exists_main(2) by (simp add: demo_other_parts(2))
qed

text \<open>
  C9. For a relative input \<open>p\<close>, \<open>resolve_workspace_path\<close> gives the same result, value or
  exception, on \<open>p\<close> and on the text of the workspace root followed by a slash and \<open>p\<close>.
  The root is what the module computes at start-up, a resolved path.
\<close>

theorem resolve_workspace_path_relative:
  assumes "WORKSPACE_ROOT fs0 environ = Inr ROOT" and "\<not> is_absolute (Path p)"
  shows "resolve_workspace_path ROOT p w
         = resolve_workspace_path ROOT (str_of ROOT @ ''/'' @ p) w"
proof -
  from assms(1) have n: "(root ROOT = ''/'' \<or> root ROOT = ''//'')
                         \<and> (\<forall>x\<in>set (tail ROOT). normal_name x)"
    unfolding WORKSPACE_ROOT_def by (rule resolve_normal)
  then have "\<forall>x\<in>set (tail ROOT). plain_name x" by (simp add: normal_name_def)
  with n assms(2) show ?thesis by (simp add: resolve_workspace_path_root_concat)
qed

theorem resolve_workspace_path_relative_witness:
  "WORKSPACE_ROOT demo_fs None = Inr demo_root
   \<and> \<not> is_absolute (Path ''demo/main.tex'')
   \<and> resolve_workspace_path demo_root ''demo/main.tex'' demo_world
     = resolve_workspace_path demo_root ''/workspaces/demo/main.tex'' demo_world
   \<and> resolve_workspace_path demo_root ''demo/main.tex'' demo_world
     = (Inr (PosixPath ''/'' [''workspaces'', ''demo'', ''main.tex'']), demo_world)"
proof -
  have r: "WORKSPACE_ROOT demo_fs None = Inr demo_root"
    by code_simp
  have p: "\<not> is_absolute (Path ''demo/main.tex'')"
    by code_simp
  have s: "str_of demo_root @ ''/'' @ ''demo/main.tex'' = ''/workspaces/demo/main.tex''"
    by (simp add: demo_root_parts)
  have v: "resolve_workspace_path demo_root ''/workspaces/demo/main.tex'' demo_world
           = (Inr (PosixPath ''/'' [''workspaces'', ''demo'', ''main.tex'']), demo_world)"
    by (rule demo_guard_main)
  from resolve_workspace_path_relative [OF r p, of demo_world]
  show ?thesis using r p s v by simp
qed

text \<open>
  C10. The claim is that \<open>resolve_workspace_path\<close> succeeds on every input with a \<open>..\<close>
  segment whose normalised result is within the workspace root. With \<open>demo/loop.tex\<close> a
  symbolic link to itself, the input \<open>demo/../demo/loop.tex\<close> has the normalised form
  \<open>/workspaces/demo/loop.tex\<close>, within the root, and the guard raises \<^verbatim>\<open>RuntimeError\<close>.
\<close>

theorem resolve_workspace_path_dotdot_counterexample:
  "''..'' \<in> set (split_sep ''demo/../demo/loop.tex'')
   \<and> realpath (files faulty_world) ''/workspaces/demo/../demo/loop.tex''
     = Inr ''/workspaces/demo/loop.tex''
   \<and> spec_within_root demo_root (Path ''/workspaces/demo/loop.tex'')
   \<and> fst (resolve_workspace_path demo_root ''demo/../demo/loop.tex'' faulty_world)
     = Inl (RuntimeError ''/workspaces/demo/loop.tex'')"
proof -
  have "''..'' \<in> set (split_sep ''demo/../demo/loop.tex'')"
    by simp
  moreover have "realpath (files faulty_world) ''/workspaces/demo/../demo/loop.tex''
     = Inr ''/workspaces/demo/loop.tex''"
    by code_simp
  moreover have "spec_within_root demo_root (Path ''/workspaces/demo/loop.tex'')"
    by (simp add: spec_within_root_def demo_root_def Path_def splitroot_def)
  moreover have "fst (resolve_workspace_path demo_root ''demo/../demo/loop.tex'' faulty_world)
     = Inl (RuntimeError ''/workspaces/demo/loop.tex'')"
    by code_simp
  ultimately show ?thesis by simp
qed

text \<open>
  C10, as amended. An input with a \<open>..\<close> segment for which \<^verbatim>\<open>Path.resolve()\<close> returns a
  path \<open>q\<close> within the workspace root is accepted: \<open>resolve_workspace_path\<close> returns \<open>q\<close>,
  and \<open>q\<close> has no \<open>..\<close>, neither among its names nor between the slashes of its text.
\<close>

theorem resolve_workspace_path_dotdot:
  assumes "''..'' \<in> set (split_sep p)"
    and "resolve (files w)
           (if is_absolute (Path p) then Path p else joinpath ROOT (Path p)) = Inr q"
    and "spec_within_root ROOT q"
  shows "resolve_workspace_path ROOT p w = (Inr q, w)
       \<and> ''..'' \<notin> set (tail q)
       \<and> ''..'' \<notin> set (split_sep (str_of q))"
proof -
  from resolve_normal [OF assms(2)]
  have r: "root q = ''/'' \<or> root q = ''//''" and n: "\<forall>x\<in>set (tail q). normal_name x"
    by simp_all
  from n have names: "''..'' \<notin> set (tail q)" by (auto simp: normal_name_def)
  from n have "\<forall>x\<in>set (tail q). plain_name x" by (simp add: normal_name_def)
  from split_sep_str_of [OF r this] names
  have "''..'' \<notin> set (split_sep (str_of q))" by auto
  with names resolve_workspace_path_cases [OF assms(2)] assms(3) show ?thesis by simp
qed

theorem resolve_workspace_path_dotdot_witness:
  "''..'' \<in> set (split_sep ''demo/../demo/main.tex'')
   \<and> resolve (files demo_world)
       (if is_absolute (Path ''demo/../demo/main.tex'') then Path ''demo/../demo/main.tex''
        else joinpath demo_root (Path ''demo/../demo/main.tex''))
       = Inr (PosixPath ''/'' [''workspaces'', ''demo'', ''main.tex''])
   \<and> spec_within_root demo_root (PosixPath ''/'' [''workspaces'', ''demo'', ''main.tex''])
   \<and> resolve_workspace_path demo_root ''demo/../demo/main.tex'' demo_world
       = (Inr (PosixPath ''/'' [''workspaces'', ''demo'', ''main.tex'']), demo_world)
   \<and> ''..'' \<notin> set (split_sep (str_of (PosixPath ''/'' [''workspaces'', ''demo'', ''main.tex''])))"
proof -
  have d: "''..'' \<in> set (split_sep ''demo/../demo/main.tex'')"
    by simp
  have q: "resolve (files demo_world)
       (if is_absolute (Path ''demo/../demo/main.tex'') then Path ''demo/../demo/main.tex''
        else joinpath demo_root (Path ''demo/../demo/main.tex''))
       = Inr (PosixPath ''/'' [''workspaces'', ''demo'', ''main.tex''])"
    by code_simp
  have i: "spec_within_root demo_root (PosixPath ''/'' [''workspaces'', ''demo'', ''main.tex''])"
    by (simp add: spec_within_root_def demo_root_def)
  from resolve_workspace_path_dotdot [OF d q i]
  show ?thesis using d q i by simp
qed

end
